theory Spec2Isabelle
  imports Main "HOL-Library.Word"
begin

section \<open>heap\_useNewlib\_NXP.c: newlib's malloc family under FreeRTOS\<close>

text \<open>
  The file is written for NXP Cortex-M parts (it traps with the ARM instruction
  \<^verbatim>\<open>bkpt #0\<close> and casts the address \<^verbatim>\<open>&HEAP_SIZE\<close> to \<^verbatim>\<open>int\<close>), so
  \<^verbatim>\<open>char *\<close>, \<^verbatim>\<open>int\<close> and \<^verbatim>\<open>size_t\<close> are all 32 bits wide. Each is a
  \<open>32 word\<close> here: \<open>+\<close> and \<open>-\<close> wrap around as the target's instructions do,
  \<open>\<le>\<close> and \<open><\<close> on words are the unsigned order in which the target compares two
  pointers, \<open>uint\<close> reads a word as an address or a \<^verbatim>\<open>size_t\<close> and \<open>sint\<close>
  reads it as an \<^verbatim>\<open>int\<close>. Adding an \<^verbatim>\<open>int\<close> to a \<^verbatim>\<open>char *\<close> adds the
  two bit patterns, so \<^verbatim>\<open>currentHeapEnd + incr\<close> is word addition.
\<close>

type_synonym word32 = "32 word"

subsection \<open>Build configuration and linker symbols\<close>

text \<open>
  The two macros of FreeRTOSConfig.h that select the out-of-memory policy:
  the value of \<^verbatim>\<open>configUSE_MALLOC_FAILED_HOOK\<close> and whether
  \<^verbatim>\<open>configHARD_STOP_ON_MALLOC_FAILURE\<close> is defined.
\<close>

record config =
  configUSE_MALLOC_FAILED_HOOK :: int
  configHARD_STOP_ON_MALLOC_FAILURE :: bool

text \<open>
  \<^verbatim>\<open>extern char __HeapBase, __HeapLimit, HEAP_SIZE;\<close> The addresses of the three
  symbols are fixed by the linker command file, which is not part of the repository;
  they are parameters of the model.
\<close>

record linker_symbols =
  HeapBase :: word32
  HeapLimit :: word32
  HEAP_SIZE :: word32

subsection \<open>Program state\<close>

text \<open>
  The static variables of the file, followed by the part of its environment that the file
  reads or changes through calls: the nesting depth of \<^verbatim>\<open>vTaskSuspendAll\<close>, the
  answer of \<^verbatim>\<open>xPortIsInsideInterrupt()\<close>, the \<^verbatim>\<open>_errno\<close> field of every
  \<^verbatim>\<open>struct _reent\<close> (indexed by the address of the structure), newlib's
  \<^verbatim>\<open>_impure_ptr\<close> and the number of times \<^verbatim>\<open>vApplicationMallocFailedHook\<close> has
  been called.
\<close>

record state =
  currentHeapEnd :: word32
  heapBytesRemaining :: word32
  totalBytesProvidedBySBRK :: word32
  TotalMallocdBytes :: word32
  MallocCallCnt :: word32
  inside_malloc :: bool
  uxSchedulerSuspended :: nat
  insideInterrupt :: bool
  reent_errno :: "word32 \<Rightarrow> int"
  impure_ptr :: word32
  hookCalls :: nat

text \<open>
  How a call ends: it returns a value, it never returns (the breakpoint loop of the
  hard-stop policy runs forever), or \<^verbatim>\<open>configASSERT\<close> fails.
\<close>

datatype 'a outcome = Returns 'a | NeverReturns | AssertionFailed

definition ENOMEM :: int where
  "ENOMEM = 12"

text \<open>\<^verbatim>\<open>(char *)-1\<close>, the value \<^verbatim>\<open>_sbrk_r\<close> returns when no memory is left.\<close>

definition sbrk_failure :: word32 where
  "sbrk_failure = - 1"

text \<open>
  The static initialisers: \<^verbatim>\<open>currentHeapEnd = &__HeapBase\<close>,
  \<^verbatim>\<open>heapBytesRemaining = (int)&HEAP_SIZE\<close>, the other statics zero. The environment
  starts with the scheduler not suspended, in task context, no hook call made.
\<close>

definition init_state :: "linker_symbols \<Rightarrow> state" where
  "init_state lk =
     \<lparr> currentHeapEnd = HeapBase lk,
       heapBytesRemaining = HEAP_SIZE lk,
       totalBytesProvidedBySBRK = 0,
       TotalMallocdBytes = 0,
       MallocCallCnt = 0,
       inside_malloc = False,
       uxSchedulerSuspended = 0,
       insideInterrupt = False,
       reent_errno = (\<lambda>_. 0),
       impure_ptr = 0,
       hookCalls = 0 \<rparr>"

subsection \<open>The scheduler and the application hook, as the file uses them\<close>

text \<open>
  Modelled from the spec: \<^verbatim>\<open>vTaskSuspendAll\<close> and \<^verbatim>\<open>xTaskResumeAll\<close> belong to
  FreeRTOS, not to the repository. The spec and the source ("vTaskSuspendAll/xTaskResumeAll
  support nesting") rely on one property of them, that they nest: a suspension counter goes
  up and down, and scheduling resumes when it is back at 0. Every \<^verbatim>\<open>xTaskResumeAll\<close>
  of \<^verbatim>\<open>_sbrk_r\<close> follows a \<^verbatim>\<open>vTaskSuspendAll\<close>, so the counter is positive there.
\<close>

definition vTaskSuspendAll :: "state \<Rightarrow> state" where
  "vTaskSuspendAll s = s\<lparr>uxSchedulerSuspended := Suc (uxSchedulerSuspended s)\<rparr>"

definition xTaskResumeAll :: "state \<Rightarrow> state" where
  "xTaskResumeAll s = s\<lparr>uxSchedulerSuspended := uxSchedulerSuspended s - 1\<rparr>"

text \<open>
  Modelled from the spec: \<^verbatim>\<open>vApplicationMallocFailedHook\<close> is the zero-argument hook
  the application registers. Here it is a hook that returns and touches none of the
  file's variables; the call is counted.
\<close>

definition vApplicationMallocFailedHook :: "state \<Rightarrow> state" where
  "vApplicationMallocFailedHook s = s\<lparr>hookCalls := Suc (hookCalls s)\<rparr>"

subsection \<open>\<^verbatim>\<open>_sbrk_r\<close>, \<^verbatim>\<open>sbrk\<close>, \<^verbatim>\<open>_sbrk\<close>\<close>

text \<open>
  \<^verbatim>\<open>while(1) { __asm("bkpt #0"); };\<close> The breakpoint instruction changes none of the
  variables, and the loop has no exit: the function is its own unfolding, and its value
  is \<open>None\<close>, as shown below.
\<close>

partial_function (option) bkpt_loop :: "state \<Rightarrow> state option" where
  "bkpt_loop s = bkpt_loop s"

text \<open>
  \<^verbatim>\<open>void * _sbrk_r(struct _reent *pReent, int incr)\<close>. The three preprocessor
  branches of the out-of-memory path are tested in the order of the source:
  \<^verbatim>\<open>#if( configUSE_MALLOC_FAILED_HOOK == 1 )\<close>, then
  \<^verbatim>\<open>#elif defined(configHARD_STOP_ON_MALLOC_FAILURE)\<close>, then \<^verbatim>\<open>#else\<close>. Only
  the last one stores \<^verbatim>\<open>ENOMEM\<close> and calls \<^verbatim>\<open>xTaskResumeAll\<close>; the
  \<^verbatim>\<open>return (char *)-1\<close> after \<^verbatim>\<open>#endif\<close> is shared by the branches that reach it.
  \<^verbatim>\<open>totalBytesProvidedBySBRK\<close> exists in builds without \<^verbatim>\<open>NDEBUG\<close>; nothing reads it.
\<close>

definition sbrk_r :: "config \<Rightarrow> linker_symbols \<Rightarrow> word32 \<Rightarrow> word32 \<Rightarrow> state \<Rightarrow> word32 outcome \<times> state" where
  "sbrk_r cfg lk pReent incr s =
     (let s1 = vTaskSuspendAll s in
      if HeapLimit lk < currentHeapEnd s1 + incr then
        (if configUSE_MALLOC_FAILED_HOOK cfg = 1 then
           (Returns sbrk_failure, vApplicationMallocFailedHook s1)
         else if configHARD_STOP_ON_MALLOC_FAILURE cfg then
           (case bkpt_loop s1 of
              None \<Rightarrow> (NeverReturns, s1)
            | Some s2 \<Rightarrow> (Returns sbrk_failure, s2))
         else
           (Returns sbrk_failure,
            xTaskResumeAll (s1\<lparr>reent_errno := (reent_errno s1)(pReent := ENOMEM)\<rparr>)))
      else
        (let previousHeapEnd = currentHeapEnd s1;
             s2 = s1\<lparr>currentHeapEnd := currentHeapEnd s1 + incr\<rparr>;
             s3 = s2\<lparr>heapBytesRemaining := heapBytesRemaining s2 - incr\<rparr>;
             s4 = s3\<lparr>totalBytesProvidedBySBRK := totalBytesProvidedBySBRK s3 + incr\<rparr>
         in (Returns previousHeapEnd, xTaskResumeAll s4)))"

text \<open>\<^verbatim>\<open>char * sbrk(int incr) { return _sbrk_r(_impure_ptr, incr); }\<close>\<close>

definition sbrk :: "config \<Rightarrow> linker_symbols \<Rightarrow> word32 \<Rightarrow> state \<Rightarrow> word32 outcome \<times> state" where
  "sbrk cfg lk incr s = sbrk_r cfg lk (impure_ptr s) incr s"

text \<open>\<^verbatim>\<open>char * _sbrk(int incr) { return sbrk(incr); }\<close>\<close>

definition sbrk_synonym :: "config \<Rightarrow> linker_symbols \<Rightarrow> word32 \<Rightarrow> state \<Rightarrow> word32 outcome \<times> state" where
  "sbrk_synonym cfg lk incr s = sbrk cfg lk incr s"

text \<open>
  A sequence of calls of \<^verbatim>\<open>_sbrk_r\<close>, one after the other on the same state. A
  request is the pair of arguments \<^verbatim>\<open>(pReent, incr)\<close>. The outcomes are collected in
  the order of the calls; once a call does not return, no later call is made.
\<close>

type_synonym request = "word32 \<times> word32"

fun sbrk_calls :: "config \<Rightarrow> linker_symbols \<Rightarrow> request list \<Rightarrow> state \<Rightarrow> word32 outcome list \<times> state" where
  "sbrk_calls cfg lk [] s = ([], s)"
| "sbrk_calls cfg lk (r # rs) s =
     (case sbrk_r cfg lk (fst r) (snd r) s of
        (Returns p, s') \<Rightarrow>
          (case sbrk_calls cfg lk rs s' of (ps, s'') \<Rightarrow> (Returns p # ps, s''))
      | (out, s') \<Rightarrow> ([out], s'))"

subsection \<open>\<^verbatim>\<open>__malloc_lock\<close>, \<^verbatim>\<open>__malloc_unlock\<close>, \<^verbatim>\<open>__env_lock\<close>, \<^verbatim>\<open>__env_unlock\<close>\<close>

text \<open>
  Modelled from the spec: \<^verbatim>\<open>xPortIsInsideInterrupt()\<close> is the FreeRTOS port's answer
  to "am I in interrupt context"; it reads the environment.
\<close>

definition xPortIsInsideInterrupt :: "state \<Rightarrow> bool" where
  "xPortIsInsideInterrupt s = insideInterrupt s"

text \<open>
  Modelled from the spec: the macro \<^verbatim>\<open>configASSERT\<close> comes from the application's
  FreeRTOSConfig.h, which is not in the repository. The spec calls a failed assertion fatal:
  the caller does not continue past it.
\<close>

definition configASSERT :: "bool \<Rightarrow> unit outcome" where
  "configASSERT x = (if x then Returns () else AssertionFailed)"

text \<open>
  \<^verbatim>\<open>void __malloc_lock(struct _reent *p) { configASSERT( !xPortIsInsideInterrupt() ); vTaskSuspendAll(); }\<close>
\<close>

definition malloc_lock :: "word32 \<Rightarrow> state \<Rightarrow> unit outcome \<times> state" where
  "malloc_lock p s =
     (case configASSERT (\<not> xPortIsInsideInterrupt s) of
        Returns _ \<Rightarrow> (Returns (), vTaskSuspendAll s)
      | out \<Rightarrow> (out, s))"

text \<open>\<^verbatim>\<open>void __malloc_unlock(struct _reent *p) { (void)xTaskResumeAll(); }\<close>\<close>

definition malloc_unlock :: "word32 \<Rightarrow> state \<Rightarrow> unit outcome \<times> state" where
  "malloc_unlock p s = (Returns (), xTaskResumeAll s)"

text \<open>\<^verbatim>\<open>void __env_lock() { vTaskSuspendAll(); }\<close>\<close>

definition env_lock :: "state \<Rightarrow> unit outcome \<times> state" where
  "env_lock s = (Returns (), vTaskSuspendAll s)"

text \<open>\<^verbatim>\<open>void __env_unlock() { (void)xTaskResumeAll(); }\<close>\<close>

definition env_unlock :: "state \<Rightarrow> unit outcome \<times> state" where
  "env_unlock s = (Returns (), xTaskResumeAll s)"

subsection \<open>The accounting wrappers \<^verbatim>\<open>__wrap_malloc\<close> and \<^verbatim>\<open>__wrap__malloc_r\<close>\<close>

text \<open>
  \<^verbatim>\<open>__real__malloc_r\<close> is newlib's allocator. It is a parameter: given the byte count
  and the state it returns a pointer and the state it leaves (it may take the allocator
  lock and call \<^verbatim>\<open>_sbrk_r\<close>). The source declares and calls it with the byte count
  alone. The \<^verbatim>\<open>reent\<close> argument of the wrapper is not used.
\<close>

type_synonym real_malloc_r = "word32 \<Rightarrow> state \<Rightarrow> word32 \<times> state"

definition wrap_malloc_r :: "real_malloc_r \<Rightarrow> word32 \<Rightarrow> word32 \<Rightarrow> state \<Rightarrow> word32 \<times> state" where
  "wrap_malloc_r real_malloc_r' reent nbytes s =
     (let s2 = (if \<not> inside_malloc s then
                  (let s1 = s\<lparr>MallocCallCnt := MallocCallCnt s + 1\<rparr>
                   in s1\<lparr>TotalMallocdBytes := TotalMallocdBytes s1 + nbytes\<rparr>)
                else s)
      in real_malloc_r' nbytes s2)"

text \<open>
  Modelled from the source's comments: \<^verbatim>\<open>__real_malloc\<close> is newlib's
  \<^verbatim>\<open>malloc\<close>, which is \<^verbatim>\<open>_malloc_r(_impure_ptr, nbytes)\<close>. Under the linker options
  the source asks for (\<^verbatim>\<open>--wrap=malloc --wrap=_malloc_r\<close>) that call reaches
  \<^verbatim>\<open>__wrap__malloc_r\<close>: "will call malloc\_r...", as the source says.
\<close>

definition real_malloc :: "real_malloc_r \<Rightarrow> word32 \<Rightarrow> state \<Rightarrow> word32 \<times> state" where
  "real_malloc real_malloc_r' nbytes s = wrap_malloc_r real_malloc_r' (impure_ptr s) nbytes s"

definition wrap_malloc :: "real_malloc_r \<Rightarrow> word32 \<Rightarrow> state \<Rightarrow> word32 \<times> state" where
  "wrap_malloc real_malloc_r' nbytes s =
     (let s1 = s\<lparr>MallocCallCnt := MallocCallCnt s + 1\<rparr>;
          s2 = s1\<lparr>TotalMallocdBytes := TotalMallocdBytes s1 + nbytes\<rparr>;
          s3 = s2\<lparr>inside_malloc := True\<rparr>;
          (p, s4) = real_malloc real_malloc_r' nbytes s3;
          s5 = s4\<lparr>inside_malloc := False\<rparr>
      in (p, s5))"

text \<open>
  What the wrappers take for granted about newlib's allocator: it does not know the three
  accounting variables of this file and leaves them as they are.
\<close>

definition leaves_accounting :: "real_malloc_r \<Rightarrow> bool" where
  "leaves_accounting real_malloc_r' \<longleftrightarrow>
     (\<forall>n s. MallocCallCnt (snd (real_malloc_r' n s)) = MallocCallCnt s
          \<and> TotalMallocdBytes (snd (real_malloc_r' n s)) = TotalMallocdBytes s
          \<and> inside_malloc (snd (real_malloc_r' n s)) = inside_malloc s)"

text \<open>
  A sequence of allocations started from outside the wrappers, one after the other on the
  same state: each is either a call \<^verbatim>\<open>__wrap_malloc(nbytes)\<close> or a call
  \<^verbatim>\<open>__wrap__malloc_r(reent, nbytes)\<close>. The pointers returned are collected in the
  order of the calls.
\<close>

datatype allocation = Malloc word32 | Malloc_r word32 word32

fun requested :: "allocation \<Rightarrow> word32" where
  "requested (Malloc nbytes) = nbytes"
| "requested (Malloc_r reent nbytes) = nbytes"

fun allocate :: "real_malloc_r \<Rightarrow> allocation \<Rightarrow> state \<Rightarrow> word32 \<times> state" where
  "allocate real_malloc_r' (Malloc nbytes) s = wrap_malloc real_malloc_r' nbytes s"
| "allocate real_malloc_r' (Malloc_r reent nbytes) s = wrap_malloc_r real_malloc_r' reent nbytes s"

fun allocations :: "real_malloc_r \<Rightarrow> allocation list \<Rightarrow> state \<Rightarrow> word32 list \<times> state" where
  "allocations real_malloc_r' [] s = ([], s)"
| "allocations real_malloc_r' (a # calls) s =
     (case allocate real_malloc_r' a s of
        (p, s') \<Rightarrow>
          (case allocations real_malloc_r' calls s' of (ps, s'') \<Rightarrow> (p # ps, s'')))"

subsection \<open>The FreeRTOS memory interface\<close>

text \<open>
  newlib's \<^verbatim>\<open>struct mallinfo\<close>; \<^verbatim>\<open>mallinfo()\<close> is answered by newlib, so its result
  is a parameter of the query.
\<close>

record mallinfo =
  arena :: word32
  ordblks :: word32
  smblks :: word32
  hblks :: word32
  hblkhd :: word32
  usmblks :: word32
  fsmblks :: word32
  uordblks :: word32
  fordblks :: word32
  keepcost :: word32

text \<open>
  \<^verbatim>\<open>size_t xPortGetFreeHeapSize( void ) { struct mallinfo mi = mallinfo(); return mi.fordblks + heapBytesRemaining; }\<close>
\<close>

definition xPortGetFreeHeapSize :: "mallinfo \<Rightarrow> state \<Rightarrow> word32" where
  "xPortGetFreeHeapSize mi s = fordblks mi + heapBytesRemaining s"

text \<open>\<^verbatim>\<open>void vPortInitialiseBlocks( void ) {}\<close>\<close>

definition vPortInitialiseBlocks :: "state \<Rightarrow> state" where
  "vPortInitialiseBlocks s = s"

subsection \<open>Concrete builds and inputs for the examples\<close>

text \<open>
  A region of 4096 bytes in on-chip SRAM, as in the end-to-end scenario of the spec, and
  the same region placed in the upper half of the address space (where NXP parts map
  external SDRAM).
\<close>

definition sram_symbols :: linker_symbols where
  "sram_symbols = \<lparr>HeapBase = 0x20000000, HeapLimit = 0x20001000, HEAP_SIZE = 0x1000\<rparr>"

definition sdram_symbols :: linker_symbols where
  "sdram_symbols = \<lparr>HeapBase = 0x80000000, HeapLimit = 0x80001000, HEAP_SIZE = 0x1000\<rparr>"

text \<open>One build for each out-of-memory policy.\<close>

definition default_build :: config where
  "default_build = \<lparr>configUSE_MALLOC_FAILED_HOOK = 0, configHARD_STOP_ON_MALLOC_FAILURE = False\<rparr>"

definition hook_build :: config where
  "hook_build = \<lparr>configUSE_MALLOC_FAILED_HOOK = 1, configHARD_STOP_ON_MALLOC_FAILURE = False\<rparr>"

definition hard_stop_build :: config where
  "hard_stop_build = \<lparr>configUSE_MALLOC_FAILED_HOOK = 0, configHARD_STOP_ON_MALLOC_FAILURE = True\<rparr>"

text \<open>
  The requests of the spec's end-to-end scenario on the 4096-byte region: 100 bytes,
  4000 bytes, 3996 bytes, 1 byte (all with the \<^verbatim>\<open>struct _reent\<close> at address 0).
\<close>

definition scenario :: "request list" where
  "scenario = [(0, 100), (0, 4000), (0, 3996), (0, 1)]"

text \<open>Two requests that fill the 4096-byte region exactly.\<close>

definition exact_fit :: "request list" where
  "exact_fit = [(0, 100), (0, 3996)]"

text \<open>
  Two requests on the region in SDRAM: 16 bytes, then \<open>0x7FFFFFF0\<close> bytes, the
  largest \<^verbatim>\<open>int\<close> that keeps the heap end 16-byte aligned.
\<close>

definition oversized :: "request list" where
  "oversized = [(0, 16), (0, 0x7FFFFFF0)]"

text \<open>
  The state of the program after its first 100 bytes on the region in SRAM, and after its
  first 16 bytes on the region in SDRAM.
\<close>

definition after_100_bytes :: state where
  "after_100_bytes = snd (sbrk_r default_build sram_symbols 0 100 (init_state sram_symbols))"

definition after_16_bytes :: state where
  "after_16_bytes = snd (sbrk_r default_build sdram_symbols 0 16 (init_state sdram_symbols))"

text \<open>
  Three allocations from outside: \<^verbatim>\<open>malloc(24)\<close>, then \<^verbatim>\<open>_malloc_r\<close> for 40
  bytes, then \<^verbatim>\<open>malloc(8)\<close>.
\<close>

definition three_allocations :: "allocation list" where
  "three_allocations = [Malloc 24, Malloc_r 0 40, Malloc 8]"

text \<open>A \<^verbatim>\<open>struct mallinfo\<close> in which newlib reports 32 free bytes.\<close>

definition mallinfo_32_free :: mallinfo where
  "mallinfo_32_free =
     \<lparr>arena = 0, ordblks = 0, smblks = 0, hblks = 0, hblkhd = 0,
      usmblks = 0, fsmblks = 0, uordblks = 0, fordblks = 32, keepcost = 0\<rparr>"

text \<open>
  An allocator to put in the place of \<^verbatim>\<open>__real__malloc_r\<close> in the examples: it asks
  \<^verbatim>\<open>sbrk\<close> for exactly the bytes requested and returns the null pointer when it gets
  none.
\<close>

definition sbrk_malloc_r :: real_malloc_r where
  "sbrk_malloc_r nbytes s =
     (case sbrk default_build sram_symbols nbytes s of
        (Returns p, s') \<Rightarrow> (if p = sbrk_failure then 0 else p, s')
      | (_, s') \<Rightarrow> (0, s'))"

section \<open>Properties\<close>

subsection \<open>Word arithmetic on addresses\<close>

lemma uint_add_sint:
  fixes a b :: word32
  assumes "0 \<le> uint a + sint b" "uint a + sint b < 2 ^ 32"
  shows "uint (a + b) = uint a + sint b"
proof -
  have "a + b = word_of_int (uint a + sint b)" by simp
  then have "uint (a + b) = take_bit 32 (uint a + sint b)"
    by (simp only: uint_word_of_int_eq) simp
  also have "\<dots> = uint a + sint b"
    using assms by (simp add: take_bit_int_eq_self)
  finally show ?thesis .
qed

lemma sint_nonneg_eq_uint:
  fixes d :: word32
  assumes "0 \<le> sint d"
  shows "sint d = uint d"
proof -
  have "sint d < 2 ^ 31"
    using sint_less [of d] by simp
  then have small: "sint d < 2 ^ 32"
    by simp
  have "uint d = uint (word_of_int (sint d) :: word32)"
    by simp
  also have "\<dots> = take_bit 32 (sint d)"
    by (simp only: uint_word_of_int_eq) simp
  also have "\<dots> = sint d"
    using assms small by (simp add: take_bit_int_eq_self)
  finally show ?thesis by simp
qed

lemma word32_le_uint: "(a :: word32) \<le> b \<longleftrightarrow> uint a \<le> uint b"
  by (simp add: word_le_def)

lemma fits_iff_int:
  fixes c d L :: word32
  assumes "0 \<le> uint c + sint d" "uint c + sint d < 2 ^ 32"
  shows "c + d \<le> L \<longleftrightarrow> uint c + sint d \<le> uint L"
  using assms by (simp add: word32_le_uint uint_add_sint)


lemma sum_take_nonneg:
  assumes "\<forall>r \<in> set rs. 0 \<le> f r"
  shows "0 \<le> (\<Sum>r\<leftarrow>take j rs. f r :: int) \<and> (\<Sum>r\<leftarrow>take j rs. f r) \<le> (\<Sum>r\<leftarrow>rs. f r)"
proof -
  have a: "0 \<le> (\<Sum>r\<leftarrow>take j rs. f r)"
    using assms by (intro sum_list_nonneg) (auto dest: in_set_takeD)
  have b: "0 \<le> (\<Sum>r\<leftarrow>drop j rs. f r)"
    using assms by (intro sum_list_nonneg) (auto dest: in_set_dropD)
  have "(\<Sum>r\<leftarrow>rs. f r) = (\<Sum>r\<leftarrow>take j rs @ drop j rs. f r)"
    by simp
  also have "\<dots> = (\<Sum>r\<leftarrow>take j rs. f r) + (\<Sum>r\<leftarrow>drop j rs. f r)"
    by (simp only: map_append sum_list_append)
  finally show ?thesis using a b by simp
qed

subsection \<open>One call of \<^verbatim>\<open>_sbrk_r\<close>\<close>

text \<open>The breakpoint loop returns from no state.\<close>

lemma bkpt_loop_returns_nothing: "bkpt_loop s = Some s' \<Longrightarrow> False"
  by (rule bkpt_loop.raw_induct [where P = "\<lambda>_ _. False"])

lemma bkpt_loop_never_returns: "bkpt_loop s = None"
  using bkpt_loop_returns_nothing [of s] by (cases "bkpt_loop s") auto

lemma sbrk_r_fits:
  assumes "\<not> HeapLimit lk < currentHeapEnd s + incr"
  shows "sbrk_r cfg lk pReent incr s =
           (Returns (currentHeapEnd s),
            s\<lparr>currentHeapEnd := currentHeapEnd s + incr,
              heapBytesRemaining := heapBytesRemaining s - incr,
              totalBytesProvidedBySBRK := totalBytesProvidedBySBRK s + incr\<rparr>)"
  using assms by (simp add: sbrk_r_def Let_def vTaskSuspendAll_def xTaskResumeAll_def)

lemma sbrk_r_no_room:
  assumes "HeapLimit lk < currentHeapEnd s + incr"
  shows "sbrk_r cfg lk pReent incr s =
           (if configUSE_MALLOC_FAILED_HOOK cfg = 1 then
              (Returns sbrk_failure,
               s\<lparr>uxSchedulerSuspended := Suc (uxSchedulerSuspended s),
                 hookCalls := Suc (hookCalls s)\<rparr>)
            else if configHARD_STOP_ON_MALLOC_FAILURE cfg then
              (NeverReturns, s\<lparr>uxSchedulerSuspended := Suc (uxSchedulerSuspended s)\<rparr>)
            else
              (Returns sbrk_failure, s\<lparr>reent_errno := (reent_errno s)(pReent := ENOMEM)\<rparr>))"
  using assms
  by (simp add: sbrk_r_def Let_def vTaskSuspendAll_def xTaskResumeAll_def
      vApplicationMallocFailedHook_def bkpt_loop_never_returns)

lemma sbrk_r_heap_unchanged:
  assumes "HeapLimit lk < currentHeapEnd s + incr"
  shows "currentHeapEnd (snd (sbrk_r cfg lk pReent incr s)) = currentHeapEnd s"
    and "heapBytesRemaining (snd (sbrk_r cfg lk pReent incr s)) = heapBytesRemaining s"
  using assms by (simp_all add: sbrk_r_no_room)

lemma sbrk_r_keeps_remaining:
  assumes "heapBytesRemaining s = HeapLimit lk - currentHeapEnd s"
  shows "heapBytesRemaining (snd (sbrk_r cfg lk p d s))
           = HeapLimit lk - currentHeapEnd (snd (sbrk_r cfg lk p d s))"
proof (cases "HeapLimit lk < currentHeapEnd s + d")
  case True
  then show ?thesis using assms by (simp add: sbrk_r_no_room)
next
  case False
  then show ?thesis using assms by (simp add: sbrk_r_fits)
qed

lemma sbrk_r_below_limit:
  assumes "currentHeapEnd s \<le> HeapLimit lk"
  shows "currentHeapEnd (snd (sbrk_r cfg lk p d s)) \<le> HeapLimit lk"
proof (cases "HeapLimit lk < currentHeapEnd s + d")
  case True
  then show ?thesis using assms by (simp add: sbrk_r_no_room)
next
  case False
  then show ?thesis using assms by (simp add: sbrk_r_fits)
qed

lemma sbrk_r_within_region:
  assumes "0 \<le> sint d" "uint (HeapLimit lk) + sint d < 2 ^ 32"
    and "HeapBase lk \<le> currentHeapEnd s \<and> currentHeapEnd s \<le> HeapLimit lk"
  shows "HeapBase lk \<le> currentHeapEnd (snd (sbrk_r cfg lk p d s))
       \<and> currentHeapEnd (snd (sbrk_r cfg lk p d s)) \<le> HeapLimit lk"
proof (cases "HeapLimit lk < currentHeapEnd s + d")
  case True
  then show ?thesis using assms by (simp add: sbrk_r_no_room)
next
  case False
  have "uint (currentHeapEnd s) \<le> uint (HeapLimit lk)"
    using assms(3) by (simp add: word32_le_uint)
  then have "uint (currentHeapEnd s + d) = uint (currentHeapEnd s) + sint d"
    using assms(1,2) by (intro uint_add_sint) auto
  then have "HeapBase lk \<le> currentHeapEnd s + d"
    using assms(1,3) by (simp add: word32_le_uint)
  then show ?thesis using False by (simp add: sbrk_r_fits not_less)
qed


lemma sbrk_r_fits_int:
  assumes "0 \<le> uint (currentHeapEnd s) + sint incr"
    and "uint (currentHeapEnd s) + sint incr \<le> uint (HeapLimit lk)"
  shows "fst (sbrk_r cfg lk pReent incr s) = Returns (currentHeapEnd s)
       \<and> uint (currentHeapEnd (snd (sbrk_r cfg lk pReent incr s))) = uint (currentHeapEnd s) + sint incr
       \<and> heapBytesRemaining (snd (sbrk_r cfg lk pReent incr s)) = heapBytesRemaining s - incr"
proof -
  have "uint (HeapLimit lk) < 2 ^ 32"
    using uint_bounded [of "HeapLimit lk"] by simp
  then have inside: "uint (currentHeapEnd s) + sint incr < 2 ^ 32"
    using assms(2) by simp
  then have "currentHeapEnd s + incr \<le> HeapLimit lk"
    using assms by (simp add: fits_iff_int)
  then have "\<not> HeapLimit lk < currentHeapEnd s + incr"
    by (simp add: not_less)
  then show ?thesis
    using assms(1) inside by (simp add: sbrk_r_fits uint_add_sint)
qed

lemma sbrk_r_leaves_accounting:
  "MallocCallCnt (snd (sbrk_r cfg lk p d s)) = MallocCallCnt s
   \<and> TotalMallocdBytes (snd (sbrk_r cfg lk p d s)) = TotalMallocdBytes s
   \<and> inside_malloc (snd (sbrk_r cfg lk p d s)) = inside_malloc s"
  by (cases "HeapLimit lk < currentHeapEnd s + d") (simp_all add: sbrk_r_no_room sbrk_r_fits)

text \<open>The two returning out-of-memory paths, side by side.\<close>

lemma default_policy_failure:
  assumes "configUSE_MALLOC_FAILED_HOOK cfg \<noteq> 1"
    and "\<not> configHARD_STOP_ON_MALLOC_FAILURE cfg"
    and "HeapLimit lk < currentHeapEnd s + incr"
  shows "sbrk_r cfg lk pReent incr s
           = (Returns sbrk_failure, s\<lparr>reent_errno := (reent_errno s)(pReent := ENOMEM)\<rparr>)"
  using assms by (simp add: sbrk_r_no_room)

lemma hook_policy_leaves_scheduler_suspended:
  assumes "configUSE_MALLOC_FAILED_HOOK cfg = 1"
    and "HeapLimit lk < currentHeapEnd s + incr"
  shows "uxSchedulerSuspended (snd (sbrk_r cfg lk pReent incr s)) = Suc (uxSchedulerSuspended s)"
  using assms by (simp add: sbrk_r_no_room)

subsection \<open>Sequences of calls\<close>

lemma sbrk_calls_Cons_returns:
  assumes "sbrk_r cfg lk (fst r) (snd r) s = (Returns p, s')"
  shows "sbrk_calls cfg lk (r # rs) s
           = (Returns p # fst (sbrk_calls cfg lk rs s'), snd (sbrk_calls cfg lk rs s'))"
  using assms by (simp split: prod.splits)

lemma sbrk_calls_invariant:
  assumes step: "\<And>p d t. Q d \<Longrightarrow> P t \<Longrightarrow> P (snd (sbrk_r cfg lk p d t))"
    and "\<forall>r \<in> set rs. Q (snd r)"
    and "P s"
  shows "P (snd (sbrk_calls cfg lk rs s))"
  using assms(2,3)
proof (induction rs arbitrary: s)
  case Nil
  then show ?case by simp
next
  case (Cons r rs)
  obtain out s' where call: "sbrk_r cfg lk (fst r) (snd r) s = (out, s')"
    by (cases "sbrk_r cfg lk (fst r) (snd r) s")
  have "P s'"
    using step [of "snd r" s "fst r"] Cons.prems call by simp
  show ?case
  proof (cases out)
    case (Returns p)
    have "P (snd (sbrk_calls cfg lk rs s'))"
      using Cons.IH [of s'] Cons.prems \<open>P s'\<close> by simp
    then show ?thesis
      using call Returns by (simp only: sbrk_calls_Cons_returns snd_conv)
  next
    case NeverReturns
    then show ?thesis using call \<open>P s'\<close> by simp
  next
    case AssertionFailed
    then show ?thesis using call \<open>P s'\<close> by simp
  qed
qed

lemma sbrk_calls_granted:
  assumes "\<forall>j. 0 < j \<and> j \<le> length rs \<longrightarrow>
             0 \<le> uint (currentHeapEnd s) + (\<Sum>r\<leftarrow>take j rs. sint (snd r))
           \<and> uint (currentHeapEnd s) + (\<Sum>r\<leftarrow>take j rs. sint (snd r)) \<le> uint (HeapLimit lk)"
  shows "length (fst (sbrk_calls cfg lk rs s)) = length rs
       \<and> (\<forall>i<length rs. fst (sbrk_calls cfg lk rs s) ! i
              = Returns (currentHeapEnd s + (\<Sum>r\<leftarrow>take i rs. snd r)))
       \<and> snd (sbrk_calls cfg lk rs s)
           = s\<lparr>currentHeapEnd := currentHeapEnd s + (\<Sum>r\<leftarrow>rs. snd r),
               heapBytesRemaining := heapBytesRemaining s - (\<Sum>r\<leftarrow>rs. snd r),
               totalBytesProvidedBySBRK := totalBytesProvidedBySBRK s + (\<Sum>r\<leftarrow>rs. snd r)\<rparr>
       \<and> uint (currentHeapEnd s + (\<Sum>r\<leftarrow>rs. snd r))
           = uint (currentHeapEnd s) + (\<Sum>r\<leftarrow>rs. sint (snd r))"
  using assms
proof (induction rs arbitrary: s)
  case Nil
  then show ?case by simp
next
  case (Cons r rs)
  let ?c = "currentHeapEnd s"
  let ?d = "snd r"
  have first: "0 \<le> uint ?c + sint ?d \<and> uint ?c + sint ?d \<le> uint (HeapLimit lk)"
    using Cons.prems [rule_format, of 1] by simp
  have lim: "uint (HeapLimit lk) < 2 ^ 32"
    using uint_bounded [of "HeapLimit lk"] by simp
  have u: "uint (?c + ?d) = uint ?c + sint ?d"
    using first lim by (intro uint_add_sint) auto
  have "?c + ?d \<le> HeapLimit lk"
    using first u by (simp add: word32_le_uint)
  then have fits: "\<not> HeapLimit lk < ?c + ?d"
    by (simp add: not_less)
  define s' where "s' = s\<lparr>currentHeapEnd := ?c + ?d,
              heapBytesRemaining := heapBytesRemaining s - ?d,
              totalBytesProvidedBySBRK := totalBytesProvidedBySBRK s + ?d\<rparr>"
  have call: "sbrk_r cfg lk (fst r) (snd r) s = (Returns ?c, s')"
    using sbrk_r_fits [OF fits] by (simp add: s'_def)
  have c': "currentHeapEnd s' = ?c + ?d"
    by (simp add: s'_def)
  have rest: "\<forall>j. 0 < j \<and> j \<le> length rs \<longrightarrow>
             0 \<le> uint (currentHeapEnd s') + (\<Sum>r\<leftarrow>take j rs. sint (snd r))
           \<and> uint (currentHeapEnd s') + (\<Sum>r\<leftarrow>take j rs. sint (snd r)) \<le> uint (HeapLimit lk)"
  proof (intro allI impI)
    fix j assume "0 < j \<and> j \<le> length rs"
    then show "0 \<le> uint (currentHeapEnd s') + (\<Sum>r\<leftarrow>take j rs. sint (snd r))
           \<and> uint (currentHeapEnd s') + (\<Sum>r\<leftarrow>take j rs. sint (snd r)) \<le> uint (HeapLimit lk)"
      using Cons.prems [rule_format, of "Suc j"] by (simp add: c' u add.assoc)
  qed
  note ih = Cons.IH [OF rest]
  have unfold: "sbrk_calls cfg lk (r # rs) s
           = (Returns ?c # fst (sbrk_calls cfg lk rs s'), snd (sbrk_calls cfg lk rs s'))"
    using call by (rule sbrk_calls_Cons_returns)
  have len: "length (fst (sbrk_calls cfg lk (r # rs) s)) = length (r # rs)"
    using ih unfold by simp
  have nth: "\<forall>i<length (r # rs). fst (sbrk_calls cfg lk (r # rs) s) ! i
              = Returns (?c + (\<Sum>r\<leftarrow>take i (r # rs). snd r))"
  proof (intro allI impI)
    fix i assume i: "i < length (r # rs)"
    show "fst (sbrk_calls cfg lk (r # rs) s) ! i = Returns (?c + (\<Sum>r\<leftarrow>take i (r # rs). snd r))"
    proof (cases i)
      case 0
      then show ?thesis using unfold by simp
    next
      case (Suc i')
      then have "i' < length rs" using i by simp
      then have "fst (sbrk_calls cfg lk rs s') ! i' = Returns (currentHeapEnd s' + (\<Sum>r\<leftarrow>take i' rs. snd r))"
        using ih by simp
      then show ?thesis using unfold Suc by (simp add: c' add.assoc)
    qed
  qed
  have st: "snd (sbrk_calls cfg lk (r # rs) s)
           = s\<lparr>currentHeapEnd := ?c + (\<Sum>r\<leftarrow>r # rs. snd r),
               heapBytesRemaining := heapBytesRemaining s - (\<Sum>r\<leftarrow>r # rs. snd r),
               totalBytesProvidedBySBRK := totalBytesProvidedBySBRK s + (\<Sum>r\<leftarrow>r # rs. snd r)\<rparr>"
    using ih unfold by (simp add: s'_def add.assoc diff_diff_eq)
  have ui: "uint (?c + (\<Sum>r\<leftarrow>r # rs. snd r)) = uint ?c + (\<Sum>r\<leftarrow>r # rs. sint (snd r))"
    using ih by (simp add: c' u add.assoc)
  show ?case using len nth st ui by blast
qed

lemma sbrk_calls_snoc:
  assumes "\<forall>out \<in> set (fst (sbrk_calls cfg lk xs s)). \<exists>p. out = Returns p"
  shows "sbrk_calls cfg lk (xs @ [r]) s
           = (fst (sbrk_calls cfg lk xs s) @ [fst (sbrk_r cfg lk (fst r) (snd r) (snd (sbrk_calls cfg lk xs s)))],
              snd (sbrk_r cfg lk (fst r) (snd r) (snd (sbrk_calls cfg lk xs s))))"
  using assms
proof (induction xs arbitrary: s)
  case Nil
  show ?case
    by (cases "sbrk_r cfg lk (fst r) (snd r) s"; cases "fst (sbrk_r cfg lk (fst r) (snd r) s)") auto
next
  case (Cons x xs)
  obtain out s' where call: "sbrk_r cfg lk (fst x) (snd x) s = (out, s')"
    by (cases "sbrk_r cfg lk (fst x) (snd x) s")
  show ?case
  proof (cases out)
    case (Returns p)
    have unfold: "sbrk_calls cfg lk (x # xs) s
           = (Returns p # fst (sbrk_calls cfg lk xs s'), snd (sbrk_calls cfg lk xs s'))"
      using call Returns by (simp only: sbrk_calls_Cons_returns)
    have unfold': "sbrk_calls cfg lk (x # (xs @ [r])) s
           = (Returns p # fst (sbrk_calls cfg lk (xs @ [r]) s'), snd (sbrk_calls cfg lk (xs @ [r]) s'))"
      using call Returns by (simp only: sbrk_calls_Cons_returns)
    have "\<forall>out \<in> set (fst (sbrk_calls cfg lk xs s')). \<exists>p. out = Returns p"
      using Cons.prems unfold by simp
    from Cons.IH [OF this] show ?thesis
      using unfold unfold' by simp
  next
    case NeverReturns
    then have "sbrk_calls cfg lk (x # xs) s = ([NeverReturns], s')"
      using call by simp
    then show ?thesis using Cons.prems by simp
  next
    case AssertionFailed
    then have "sbrk_calls cfg lk (x # xs) s = ([AssertionFailed], s')"
      using call by simp
    then show ?thesis using Cons.prems by simp
  qed
qed

subsection \<open>Locks and accounting wrappers\<close>

lemma malloc_lock_in_interrupt:
  assumes "xPortIsInsideInterrupt s"
  shows "malloc_lock p s = (AssertionFailed, s)"
  using assms by (simp add: malloc_lock_def configASSERT_def)

lemma malloc_lock_in_task:
  assumes "\<not> xPortIsInsideInterrupt s"
  shows "malloc_lock p s = (Returns (), vTaskSuspendAll s)"
  using assms by (simp add: malloc_lock_def configASSERT_def)

lemma wrap_malloc_r_counters:
  assumes "leaves_accounting rm"
  shows "MallocCallCnt (snd (wrap_malloc_r rm reent n s))
           = (if inside_malloc s then MallocCallCnt s else MallocCallCnt s + 1)"
    and "TotalMallocdBytes (snd (wrap_malloc_r rm reent n s))
           = (if inside_malloc s then TotalMallocdBytes s else TotalMallocdBytes s + n)"
    and "inside_malloc (snd (wrap_malloc_r rm reent n s)) = inside_malloc s"
  using assms by (simp_all add: wrap_malloc_r_def leaves_accounting_def Let_def)

lemma wrap_malloc_counters:
  assumes "leaves_accounting rm"
  shows "MallocCallCnt (snd (wrap_malloc rm n s)) = MallocCallCnt s + 1"
    and "TotalMallocdBytes (snd (wrap_malloc rm n s)) = TotalMallocdBytes s + n"
    and "inside_malloc (snd (wrap_malloc rm n s)) = False"
proof -
  let ?s3 = "s\<lparr>MallocCallCnt := MallocCallCnt s + 1,
                TotalMallocdBytes := TotalMallocdBytes s + n,
                inside_malloc := True\<rparr>"
  have w: "snd (wrap_malloc rm n s) = (snd (wrap_malloc_r rm (impure_ptr ?s3) n ?s3))\<lparr>inside_malloc := False\<rparr>"
    by (simp add: wrap_malloc_def real_malloc_def Let_def split: prod.splits)
  show "MallocCallCnt (snd (wrap_malloc rm n s)) = MallocCallCnt s + 1"
    and "TotalMallocdBytes (snd (wrap_malloc rm n s)) = TotalMallocdBytes s + n"
    unfolding w using wrap_malloc_r_counters [OF assms, of "impure_ptr ?s3" n ?s3] by simp_all
  show "inside_malloc (snd (wrap_malloc rm n s)) = False"
    unfolding w by simp
qed

lemma allocate_counters:
  assumes "leaves_accounting rm" and "\<not> inside_malloc s"
  shows "MallocCallCnt (snd (allocate rm a s)) = MallocCallCnt s + 1
       \<and> TotalMallocdBytes (snd (allocate rm a s)) = TotalMallocdBytes s + requested a
       \<and> \<not> inside_malloc (snd (allocate rm a s))"
proof (cases a)
  case (Malloc n)
  then show ?thesis
    using wrap_malloc_counters [OF assms(1), of n s] by simp
next
  case (Malloc_r reent n)
  then show ?thesis
    using wrap_malloc_r_counters [OF assms(1), of reent n s] assms(2) by simp
qed

lemma allocations_counters:
  assumes "leaves_accounting rm" and "\<not> inside_malloc s"
  shows "MallocCallCnt (snd (allocations rm calls s)) = MallocCallCnt s + of_nat (length calls)
       \<and> TotalMallocdBytes (snd (allocations rm calls s))
           = TotalMallocdBytes s + (\<Sum>a\<leftarrow>calls. requested a)
       \<and> \<not> inside_malloc (snd (allocations rm calls s))"
  using assms(2)
proof (induction calls arbitrary: s)
  case Nil
  then show ?case by simp
next
  case (Cons a calls)
  let ?s' = "snd (allocate rm a s)"
  have step: "MallocCallCnt ?s' = MallocCallCnt s + 1
       \<and> TotalMallocdBytes ?s' = TotalMallocdBytes s + requested a
       \<and> \<not> inside_malloc ?s'"
    using assms(1) Cons.prems by (rule allocate_counters)
  have unfold: "snd (allocations rm (a # calls) s) = snd (allocations rm calls ?s')"
    by (simp split: prod.splits)
  have "MallocCallCnt (snd (allocations rm calls ?s')) = MallocCallCnt ?s' + of_nat (length calls)
       \<and> TotalMallocdBytes (snd (allocations rm calls ?s'))
           = TotalMallocdBytes ?s' + (\<Sum>a\<leftarrow>calls. requested a)
       \<and> \<not> inside_malloc (snd (allocations rm calls ?s'))"
    using step by (intro Cons.IH) simp
  then show ?case
    unfolding unfold using step by (simp add: add.assoc)
qed

lemma sbrk_malloc_r_leaves_accounting: "leaves_accounting sbrk_malloc_r"
  unfolding leaves_accounting_def
proof (intro allI)
  fix n s
  obtain out s' where call: "sbrk default_build sram_symbols n s = (out, s')"
    by (cases "sbrk default_build sram_symbols n s")
  then have "s' = snd (sbrk_r default_build sram_symbols (impure_ptr s) n s)"
    by (simp add: sbrk_def)
  then have "MallocCallCnt s' = MallocCallCnt s \<and> TotalMallocdBytes s' = TotalMallocdBytes s
       \<and> inside_malloc s' = inside_malloc s"
    by (simp add: sbrk_r_leaves_accounting)
  then show "MallocCallCnt (snd (sbrk_malloc_r n s)) = MallocCallCnt s
       \<and> TotalMallocdBytes (snd (sbrk_malloc_r n s)) = TotalMallocdBytes s
       \<and> inside_malloc (snd (sbrk_malloc_r n s)) = inside_malloc s"
    using call by (cases out) (simp_all add: sbrk_malloc_r_def)
qed

text \<open>The definitions a concrete run of \<^verbatim>\<open>_sbrk_r\<close> unfolds.\<close>

lemmas run_defs = sbrk_r_def Let_def vTaskSuspendAll_def xTaskResumeAll_def
  vApplicationMallocFailedHook_def bkpt_loop_never_returns init_state_def

subsection \<open>The end-to-end scenario of the spec\<close>

text \<open>
  Region of 4096 bytes, default policy: 100 bytes are granted at the base; 4000 bytes are
  refused and the heap end stays at base + 100; 3996 bytes are granted and the heap end
  reaches the limit; 1 byte is refused. The refusals store \<^verbatim>\<open>ENOMEM\<close>.
\<close>

lemma spec_scenario:
  "sbrk_calls default_build sram_symbols scenario (init_state sram_symbols)
     = ([Returns 0x20000000, Returns sbrk_failure, Returns 0x20000064, Returns sbrk_failure],
        (init_state sram_symbols)\<lparr>currentHeapEnd := 0x20001000, heapBytesRemaining := 0,
           totalBytesProvidedBySBRK := 4096, reent_errno := (\<lambda>_. 0)(0 := ENOMEM)\<rparr>)"
  by (simp add: scenario_def run_defs sram_symbols_def default_build_def)

section \<open>The claims\<close>

subsection \<open>A request that fits\<close>

text \<open>
  C1. Every call of \<^verbatim>\<open>_sbrk_r\<close> whose request fits, that is
  \<^verbatim>\<open>currentHeapEnd + incr <= &__HeapLimit\<close> as the code evaluates it, succeeds under
  every out-of-memory policy: it returns the previous value of the Current End Pointer,
  advances the pointer by exactly \<open>incr\<close> and decreases the Remaining-Capacity Counter
  by exactly \<open>incr\<close>. The scheduler is back at the nesting depth it had on entry, and
  neither the error indicator nor the hook is touched.
\<close>

theorem sbrk_r_success:
  assumes "currentHeapEnd s + incr \<le> HeapLimit lk"
  shows "fst (sbrk_r cfg lk pReent incr s) = Returns (currentHeapEnd s)
       \<and> currentHeapEnd (snd (sbrk_r cfg lk pReent incr s)) = currentHeapEnd s + incr
       \<and> heapBytesRemaining (snd (sbrk_r cfg lk pReent incr s)) = heapBytesRemaining s - incr
       \<and> uxSchedulerSuspended (snd (sbrk_r cfg lk pReent incr s)) = uxSchedulerSuspended s
       \<and> reent_errno (snd (sbrk_r cfg lk pReent incr s)) = reent_errno s
       \<and> hookCalls (snd (sbrk_r cfg lk pReent incr s)) = hookCalls s"
  using assms
  by (simp add: sbrk_r_def Let_def vTaskSuspendAll_def xTaskResumeAll_def not_less [symmetric])

text \<open>
  The first request of the spec's scenario: 100 bytes out of 4096 are granted at the
  base of the region, and 3996 remain.
\<close>

theorem sbrk_r_success_witness:
  "currentHeapEnd (init_state sram_symbols) + 100 \<le> HeapLimit sram_symbols
   \<and> fst (sbrk_r default_build sram_symbols 0 100 (init_state sram_symbols)) = Returns 0x20000000
   \<and> currentHeapEnd (snd (sbrk_r default_build sram_symbols 0 100 (init_state sram_symbols))) = 0x20000064
   \<and> heapBytesRemaining (snd (sbrk_r default_build sram_symbols 0 100 (init_state sram_symbols))) = 3996"
proof -
  have fits: "currentHeapEnd (init_state sram_symbols) + 100 \<le> HeapLimit sram_symbols"
    by (simp add: init_state_def sram_symbols_def)
  show ?thesis
    using fits sbrk_r_success [OF fits, of default_build 0]
    by (simp add: init_state_def sram_symbols_def)
qed

subsection \<open>A request that does not fit\<close>

text \<open>
  C2, amended. A call of \<^verbatim>\<open>_sbrk_r\<close> whose request does not fit, that is
  \<^verbatim>\<open>currentHeapEnd + incr > &__HeapLimit\<close> as the code evaluates it, fails and
  changes neither the Current End Pointer nor the Remaining-Capacity Counter. How it fails
  depends on the build: under the default policy it returns \<^verbatim>\<open>(char *)-1\<close>, under the
  failure-hook policy it does so once the hook has returned, and under the hard-stop
  policy it never returns. Consequently,
  take a sequence of requests that starts with the pointer at the base, let request \<open>k\<close>
  (counted from 0) be the first at which the sum of the deltas so far exceeds the size
  of the region, and let every address \<open>base + sum\<close> up to that request lie in the 32-bit
  address space. Then the \<open>k\<close> requests before it succeed, each returning the base plus
  the deltas before it; request \<open>k\<close> fails in the way of the build; and it leaves the
  pointer and the counter where they were before it.
\<close>

theorem request_beyond_limit_fails:
  "(HeapLimit lk < currentHeapEnd s + incr \<longrightarrow>
      fst (sbrk_r cfg lk pReent incr s)
        = (if configUSE_MALLOC_FAILED_HOOK cfg \<noteq> 1 \<and> configHARD_STOP_ON_MALLOC_FAILURE cfg
           then NeverReturns else Returns sbrk_failure)
      \<and> currentHeapEnd (snd (sbrk_r cfg lk pReent incr s)) = currentHeapEnd s
      \<and> heapBytesRemaining (snd (sbrk_r cfg lk pReent incr s)) = heapBytesRemaining s)
   \<and> (k < length rs \<and> currentHeapEnd t = HeapBase lk
      \<and> (\<forall>j\<le>k. 0 \<le> uint (HeapBase lk) + (\<Sum>r\<leftarrow>take j rs. sint (snd r))
              \<and> (\<Sum>r\<leftarrow>take j rs. sint (snd r)) \<le> uint (HeapLimit lk) - uint (HeapBase lk))
      \<and> uint (HeapLimit lk) - uint (HeapBase lk) < (\<Sum>r\<leftarrow>take (Suc k) rs. sint (snd r))
      \<and> uint (HeapBase lk) + (\<Sum>r\<leftarrow>take (Suc k) rs. sint (snd r)) < 2 ^ 32 \<longrightarrow>
      length (fst (sbrk_calls cfg lk (take k rs) t)) = k
      \<and> (\<forall>i<k. fst (sbrk_calls cfg lk (take k rs) t) ! i
              = Returns (HeapBase lk + (\<Sum>r\<leftarrow>take i rs. snd r)))
      \<and> fst (sbrk_calls cfg lk (take (Suc k) rs) t)
          = fst (sbrk_calls cfg lk (take k rs) t)
            @ [if configUSE_MALLOC_FAILED_HOOK cfg \<noteq> 1 \<and> configHARD_STOP_ON_MALLOC_FAILURE cfg
               then NeverReturns else Returns sbrk_failure]
      \<and> currentHeapEnd (snd (sbrk_calls cfg lk (take (Suc k) rs) t))
          = currentHeapEnd (snd (sbrk_calls cfg lk (take k rs) t))
      \<and> heapBytesRemaining (snd (sbrk_calls cfg lk (take (Suc k) rs) t))
          = heapBytesRemaining (snd (sbrk_calls cfg lk (take k rs) t)))"
proof (intro conjI impI)
  assume "HeapLimit lk < currentHeapEnd s + incr"
  then show "fst (sbrk_r cfg lk pReent incr s)
        = (if configUSE_MALLOC_FAILED_HOOK cfg \<noteq> 1 \<and> configHARD_STOP_ON_MALLOC_FAILURE cfg
           then NeverReturns else Returns sbrk_failure)"
    and "currentHeapEnd (snd (sbrk_r cfg lk pReent incr s)) = currentHeapEnd s"
    and "heapBytesRemaining (snd (sbrk_r cfg lk pReent incr s)) = heapBytesRemaining s"
    by (simp_all add: sbrk_r_no_room)
next
  assume hyp: "k < length rs \<and> currentHeapEnd t = HeapBase lk
      \<and> (\<forall>j\<le>k. 0 \<le> uint (HeapBase lk) + (\<Sum>r\<leftarrow>take j rs. sint (snd r))
              \<and> (\<Sum>r\<leftarrow>take j rs. sint (snd r)) \<le> uint (HeapLimit lk) - uint (HeapBase lk))
      \<and> uint (HeapLimit lk) - uint (HeapBase lk) < (\<Sum>r\<leftarrow>take (Suc k) rs. sint (snd r))
      \<and> uint (HeapBase lk) + (\<Sum>r\<leftarrow>take (Suc k) rs. sint (snd r)) < 2 ^ 32"
  let ?xs = "take k rs"
  let ?A = "sbrk_calls cfg lk ?xs t"
  let ?r = "rs ! k"
  have k: "k < length rs" and t: "currentHeapEnd t = HeapBase lk"
    using hyp by simp_all
  have len: "length ?xs = k" using k by simp
  have prefixes: "\<forall>j. 0 < j \<and> j \<le> length ?xs \<longrightarrow>
             0 \<le> uint (currentHeapEnd t) + (\<Sum>r\<leftarrow>take j ?xs. sint (snd r))
           \<and> uint (currentHeapEnd t) + (\<Sum>r\<leftarrow>take j ?xs. sint (snd r)) \<le> uint (HeapLimit lk)"
  proof (intro allI impI)
    fix j assume j: "0 < j \<and> j \<le> length ?xs"
    then have "j \<le> k" using len by simp
    then have "take j ?xs = take j rs" by (simp add: min_def)
    then show "0 \<le> uint (currentHeapEnd t) + (\<Sum>r\<leftarrow>take j ?xs. sint (snd r))
           \<and> uint (currentHeapEnd t) + (\<Sum>r\<leftarrow>take j ?xs. sint (snd r)) \<le> uint (HeapLimit lk)"
      using hyp \<open>j \<le> k\<close> t by auto
  qed
  note granted = sbrk_calls_granted [OF prefixes, of cfg]
  show g1: "length (fst ?A) = k"
    using granted len by simp
  show g2: "\<forall>i<k. fst ?A ! i = Returns (HeapBase lk + (\<Sum>r\<leftarrow>take i rs. snd r))"
  proof (intro allI impI)
    fix i assume "i < k"
    then have "take i ?xs = take i rs" by (simp add: min_def)
    then show "fst ?A ! i = Returns (HeapBase lk + (\<Sum>r\<leftarrow>take i rs. snd r))"
      using granted \<open>i < k\<close> len t by simp
  qed
  have returned: "\<forall>out \<in> set (fst ?A). \<exists>p. out = Returns p"
  proof
    fix out assume "out \<in> set (fst ?A)"
    then obtain i where "i < length (fst ?A)" "out = fst ?A ! i"
      by (auto simp: in_set_conv_nth)
    then show "\<exists>p. out = Returns p"
      using g1 g2 by auto
  qed
  have split: "take (Suc k) rs = ?xs @ [?r]"
    using k by (rule take_Suc_conv_app_nth)
  have cur: "currentHeapEnd (snd ?A) = HeapBase lk + (\<Sum>r\<leftarrow>?xs. snd r)"
    and ucur: "uint (currentHeapEnd (snd ?A)) = uint (HeapBase lk) + (\<Sum>r\<leftarrow>?xs. sint (snd r))"
    using granted t by simp_all
  have total: "(\<Sum>r\<leftarrow>take (Suc k) rs. sint (snd r)) = (\<Sum>r\<leftarrow>?xs. sint (snd r)) + sint (snd ?r)"
    by (simp add: split)
  have lo: "0 \<le> uint (HeapBase lk) + (\<Sum>r\<leftarrow>?xs. sint (snd r))"
    using hyp by simp
  have "0 \<le> uint (HeapLimit lk)" by simp
  have above: "uint (HeapLimit lk) < uint (currentHeapEnd (snd ?A)) + sint (snd ?r)"
    using hyp total ucur by simp
  have "uint (currentHeapEnd (snd ?A) + snd ?r) = uint (currentHeapEnd (snd ?A)) + sint (snd ?r)"
  proof (rule uint_add_sint)
    show "0 \<le> uint (currentHeapEnd (snd ?A)) + sint (snd ?r)"
      using above \<open>0 \<le> uint (HeapLimit lk)\<close> by linarith
    show "uint (currentHeapEnd (snd ?A)) + sint (snd ?r) < 2 ^ 32"
      using hyp total ucur by simp
  qed
  then have no_room: "HeapLimit lk < currentHeapEnd (snd ?A) + snd ?r"
    using above by (simp add: word_less_def)
  have run: "sbrk_calls cfg lk (take (Suc k) rs) t
           = (fst ?A @ [fst (sbrk_r cfg lk (fst ?r) (snd ?r) (snd ?A))],
              snd (sbrk_r cfg lk (fst ?r) (snd ?r) (snd ?A)))"
    unfolding split using returned by (rule sbrk_calls_snoc)
  show "fst (sbrk_calls cfg lk (take (Suc k) rs) t)
          = fst ?A @ [if configUSE_MALLOC_FAILED_HOOK cfg \<noteq> 1 \<and> configHARD_STOP_ON_MALLOC_FAILURE cfg
               then NeverReturns else Returns sbrk_failure]"
    using run no_room by (simp add: sbrk_r_no_room)
  show "currentHeapEnd (snd (sbrk_calls cfg lk (take (Suc k) rs) t)) = currentHeapEnd (snd ?A)"
    using run no_room by (simp add: sbrk_r_no_room)
  show "heapBytesRemaining (snd (sbrk_calls cfg lk (take (Suc k) rs) t)) = heapBytesRemaining (snd ?A)"
    using run no_room by (simp add: sbrk_r_no_room)
qed

text \<open>
  The scenario of the spec under the default policy: 5000 bytes are refused at once; and
  in the sequence 100, 4000, ... the sums are 100 and 4100, so the request of 4000 bytes
  is the first that does not fit: it is refused and the heap end stays at base + 100.
\<close>

theorem request_beyond_limit_fails_witness:
  "HeapLimit sram_symbols < currentHeapEnd (init_state sram_symbols) + 5000
   \<and> fst (sbrk_r default_build sram_symbols 0 5000 (init_state sram_symbols)) = Returns sbrk_failure
   \<and> currentHeapEnd (snd (sbrk_r default_build sram_symbols 0 5000 (init_state sram_symbols))) = 0x20000000
   \<and> heapBytesRemaining (snd (sbrk_r default_build sram_symbols 0 5000 (init_state sram_symbols))) = 4096
   \<and> (1 :: nat) < length scenario
   \<and> currentHeapEnd (init_state sram_symbols) = HeapBase sram_symbols
   \<and> (\<Sum>r\<leftarrow>take 0 scenario. sint (snd r)) = 0
   \<and> (\<Sum>r\<leftarrow>take 1 scenario. sint (snd r)) = 100
   \<and> (\<Sum>r\<leftarrow>take (Suc 1) scenario. sint (snd r)) = 4100
   \<and> uint (HeapLimit sram_symbols) - uint (HeapBase sram_symbols) = 4096
   \<and> uint (HeapBase sram_symbols) + 4100 < 2 ^ 32
   \<and> fst (sbrk_calls default_build sram_symbols (take 1 scenario) (init_state sram_symbols))
        = [Returns 0x20000000]
   \<and> fst (sbrk_calls default_build sram_symbols (take (Suc 1) scenario) (init_state sram_symbols))
        = [Returns 0x20000000, Returns sbrk_failure]
   \<and> currentHeapEnd (snd (sbrk_calls default_build sram_symbols (take 1 scenario) (init_state sram_symbols)))
        = 0x20000064
   \<and> currentHeapEnd (snd (sbrk_calls default_build sram_symbols (take (Suc 1) scenario) (init_state sram_symbols)))
        = 0x20000064"
proof -
  let ?s = "init_state sram_symbols"
  have no_room: "HeapLimit sram_symbols < currentHeapEnd ?s + 5000"
    by (simp add: init_state_def sram_symbols_def)
  have k: "(1 :: nat) < length scenario"
    by (simp add: scenario_def)
  have start: "currentHeapEnd ?s = HeapBase sram_symbols"
    by (simp add: init_state_def)
  have sums: "(\<Sum>r\<leftarrow>take 0 scenario. sint (snd r)) = 0"
    "(\<Sum>r\<leftarrow>take 1 scenario. sint (snd r)) = 100"
    "(\<Sum>r\<leftarrow>take (Suc 1) scenario. sint (snd r)) = 4100"
    by (simp_all add: scenario_def)
  have size: "uint (HeapLimit sram_symbols) - uint (HeapBase sram_symbols) = 4096"
    and top: "uint (HeapBase sram_symbols) + 4100 < 2 ^ 32"
    by (simp_all add: sram_symbols_def)
  have before: "\<forall>j\<le>1. 0 \<le> uint (HeapBase sram_symbols) + (\<Sum>r\<leftarrow>take j scenario. sint (snd r))
            \<and> (\<Sum>r\<leftarrow>take j scenario. sint (snd r)) \<le> uint (HeapLimit sram_symbols) - uint (HeapBase sram_symbols)"
    by (auto simp: le_Suc_eq scenario_def sram_symbols_def)
  have exceeds: "uint (HeapLimit sram_symbols) - uint (HeapBase sram_symbols) < (\<Sum>r\<leftarrow>take (Suc 1) scenario. sint (snd r))"
    by (simp add: scenario_def sram_symbols_def)
  have inside: "uint (HeapBase sram_symbols) + (\<Sum>r\<leftarrow>take (Suc 1) scenario. sint (snd r)) < 2 ^ 32"
    by (simp add: scenario_def sram_symbols_def)
  note inst = request_beyond_limit_fails [of sram_symbols ?s 5000 default_build 0 1 scenario ?s]
  have single: "fst (sbrk_r default_build sram_symbols 0 5000 ?s) = Returns sbrk_failure"
    "currentHeapEnd (snd (sbrk_r default_build sram_symbols 0 5000 ?s)) = 0x20000000"
    "heapBytesRemaining (snd (sbrk_r default_build sram_symbols 0 5000 ?s)) = 4096"
    using inst no_room by (simp_all add: default_build_def init_state_def sram_symbols_def)
  have first: "fst (sbrk_calls default_build sram_symbols (take 1 scenario) ?s) = [Returns 0x20000000]"
    and endp: "currentHeapEnd (snd (sbrk_calls default_build sram_symbols (take 1 scenario) ?s)) = 0x20000064"
    by (simp_all add: scenario_def run_defs sram_symbols_def default_build_def)
  have "fst (sbrk_calls default_build sram_symbols (take (Suc 1) scenario) ?s)
          = fst (sbrk_calls default_build sram_symbols (take 1 scenario) ?s) @ [Returns sbrk_failure]
      \<and> currentHeapEnd (snd (sbrk_calls default_build sram_symbols (take (Suc 1) scenario) ?s))
          = currentHeapEnd (snd (sbrk_calls default_build sram_symbols (take 1 scenario) ?s))"
    using inst k start before exceeds inside by (simp add: default_build_def)
  then have "fst (sbrk_calls default_build sram_symbols (take (Suc 1) scenario) ?s)
          = [Returns 0x20000000, Returns sbrk_failure]"
    and "currentHeapEnd (snd (sbrk_calls default_build sram_symbols (take (Suc 1) scenario) ?s))
          = 0x20000064"
    using first endp by simp_all
  then show ?thesis
    using no_room single k start sums size top first endp by blast
qed

text \<open>
  What the claim says beyond this does not hold. In a hard-stop build the refused call
  never returns, so no sentinel comes back. And on the region in SDRAM the request of
  \<open>0x7FFFFFF0\<close> bytes after one of 16 bytes takes the sum far beyond the 4096 bytes of
  the region, yet \<^verbatim>\<open>currentHeapEnd + incr\<close> wraps around to address 0, the test
  passes, and the call is granted with no error indicator set.
\<close>

theorem request_beyond_limit_counterexample:
  "HeapLimit sram_symbols < currentHeapEnd (init_state sram_symbols) + 5000
   \<and> fst (sbrk_r hard_stop_build sram_symbols 0 5000 (init_state sram_symbols)) = NeverReturns
   \<and> fst (sbrk_r hard_stop_build sram_symbols 0 5000 (init_state sram_symbols)) \<noteq> Returns sbrk_failure
   \<and> currentHeapEnd (init_state sdram_symbols) = HeapBase sdram_symbols
   \<and> uint (HeapLimit sdram_symbols) - uint (HeapBase sdram_symbols) = 4096
   \<and> (\<Sum>r\<leftarrow>take 1 oversized. sint (snd r)) = 16
   \<and> (\<Sum>r\<leftarrow>take 2 oversized. sint (snd r)) = 2147483648
   \<and> fst (sbrk_calls default_build sdram_symbols oversized (init_state sdram_symbols))
        = [Returns 0x80000000, Returns 0x80000010]
   \<and> currentHeapEnd (snd (sbrk_calls default_build sdram_symbols oversized (init_state sdram_symbols))) = 0
   \<and> reent_errno (snd (sbrk_calls default_build sdram_symbols oversized (init_state sdram_symbols))) 0 = 0"
  by (simp add: run_defs sram_symbols_def sdram_symbols_def hard_stop_build_def default_build_def
      oversized_def)

subsection \<open>The Remaining-Capacity Counter\<close>

text \<open>
  C3. Start with the Current End Pointer at the base and the Remaining-Capacity Counter at
  \<open>limit - base\<close>. After every sequence of calls of \<^verbatim>\<open>_sbrk_r\<close>, with any deltas
  and under any policy, whether the calls were granted or refused,
  \<^verbatim>\<open>heapBytesRemaining\<close> equals \<^verbatim>\<open>&__HeapLimit - currentHeapEnd\<close>: as 32-bit
  values always, and as numbers of bytes whenever the base is not above the limit.
\<close>

theorem remaining_capacity_invariant:
  assumes "currentHeapEnd s = HeapBase lk"
    and "heapBytesRemaining s = HeapLimit lk - HeapBase lk"
  shows "heapBytesRemaining (snd (sbrk_calls cfg lk rs s))
           = HeapLimit lk - currentHeapEnd (snd (sbrk_calls cfg lk rs s))
       \<and> (HeapBase lk \<le> HeapLimit lk \<longrightarrow>
            uint (heapBytesRemaining (snd (sbrk_calls cfg lk rs s)))
              = uint (HeapLimit lk) - uint (currentHeapEnd (snd (sbrk_calls cfg lk rs s))))"
proof -
  let ?s' = "snd (sbrk_calls cfg lk rs s)"
  have eq: "heapBytesRemaining ?s' = HeapLimit lk - currentHeapEnd ?s'"
    using assms
    by (intro sbrk_calls_invariant [where Q = "\<lambda>_. True"
          and P = "\<lambda>t. heapBytesRemaining t = HeapLimit lk - currentHeapEnd t"])
       (simp_all add: sbrk_r_keeps_remaining)
  have "uint (heapBytesRemaining ?s') = uint (HeapLimit lk) - uint (currentHeapEnd ?s')"
    if "HeapBase lk \<le> HeapLimit lk"
  proof -
    have "currentHeapEnd ?s' \<le> HeapLimit lk"
      using assms that
      by (intro sbrk_calls_invariant [where Q = "\<lambda>_. True"
            and P = "\<lambda>t. currentHeapEnd t \<le> HeapLimit lk"])
         (simp_all add: sbrk_r_below_limit)
    then show ?thesis
      using eq by (simp add: uint_minus_simple_alt)
  qed
  with eq show ?thesis by blast
qed

text \<open>
  The whole scenario from the initial state of the program: the heap end reaches the
  limit and nothing remains.
\<close>

theorem remaining_capacity_invariant_witness:
  "currentHeapEnd (init_state sram_symbols) = HeapBase sram_symbols
   \<and> heapBytesRemaining (init_state sram_symbols) = HeapLimit sram_symbols - HeapBase sram_symbols
   \<and> HeapBase sram_symbols \<le> HeapLimit sram_symbols
   \<and> currentHeapEnd (snd (sbrk_calls default_build sram_symbols scenario (init_state sram_symbols)))
       = 0x20001000
   \<and> heapBytesRemaining (snd (sbrk_calls default_build sram_symbols scenario (init_state sram_symbols)))
       = 0
   \<and> heapBytesRemaining (snd (sbrk_calls default_build sram_symbols scenario (init_state sram_symbols)))
       = HeapLimit sram_symbols
         - currentHeapEnd (snd (sbrk_calls default_build sram_symbols scenario (init_state sram_symbols)))
   \<and> uint (heapBytesRemaining (snd (sbrk_calls default_build sram_symbols scenario (init_state sram_symbols))))
       = uint (HeapLimit sram_symbols)
         - uint (currentHeapEnd (snd (sbrk_calls default_build sram_symbols scenario (init_state sram_symbols))))"
proof -
  have start: "currentHeapEnd (init_state sram_symbols) = HeapBase sram_symbols"
    by (simp add: init_state_def)
  have size: "heapBytesRemaining (init_state sram_symbols) = HeapLimit sram_symbols - HeapBase sram_symbols"
    by (simp add: init_state_def sram_symbols_def)
  have region: "HeapBase sram_symbols \<le> HeapLimit sram_symbols"
    by (simp add: sram_symbols_def)
  have final: "currentHeapEnd (snd (sbrk_calls default_build sram_symbols scenario (init_state sram_symbols)))
       = 0x20001000"
    "heapBytesRemaining (snd (sbrk_calls default_build sram_symbols scenario (init_state sram_symbols))) = 0"
    by (simp_all add: scenario_def run_defs sram_symbols_def default_build_def)
  show ?thesis
    using start size region final
      remaining_capacity_invariant [OF start size, of default_build scenario]
    by blast
qed

subsection \<open>The failure-hook policy\<close>

text \<open>
  C4, amended. In a build with \<^verbatim>\<open>configUSE_MALLOC_FAILED_HOOK == 1\<close> a call of
  \<^verbatim>\<open>_sbrk_r\<close> whose request does not fit calls \<^verbatim>\<open>vApplicationMallocFailedHook\<close>
  once and, when the hook returns, returns \<^verbatim>\<open>(char *)-1\<close> to the allocator with the
  Current End Pointer and the Remaining-Capacity Counter unchanged. Unlike the default
  policy it leaves the thread-local error indicator as it was.
\<close>

theorem hook_policy_failure:
  assumes "configUSE_MALLOC_FAILED_HOOK cfg = 1"
    and "HeapLimit lk < currentHeapEnd s + incr"
  shows "fst (sbrk_r cfg lk pReent incr s) = Returns sbrk_failure
       \<and> hookCalls (snd (sbrk_r cfg lk pReent incr s)) = Suc (hookCalls s)
       \<and> reent_errno (snd (sbrk_r cfg lk pReent incr s)) = reent_errno s
       \<and> currentHeapEnd (snd (sbrk_r cfg lk pReent incr s)) = currentHeapEnd s
       \<and> heapBytesRemaining (snd (sbrk_r cfg lk pReent incr s)) = heapBytesRemaining s"
  using assms by (simp add: sbrk_r_no_room)

text \<open>A request of 5000 bytes on the 4096-byte region in a failure-hook build.\<close>

theorem hook_policy_failure_witness:
  "configUSE_MALLOC_FAILED_HOOK hook_build = 1
   \<and> HeapLimit sram_symbols < currentHeapEnd (init_state sram_symbols) + 5000
   \<and> fst (sbrk_r hook_build sram_symbols 0 5000 (init_state sram_symbols)) = Returns sbrk_failure
   \<and> hookCalls (snd (sbrk_r hook_build sram_symbols 0 5000 (init_state sram_symbols))) = 1
   \<and> reent_errno (snd (sbrk_r hook_build sram_symbols 0 5000 (init_state sram_symbols))) 0 = 0
   \<and> currentHeapEnd (snd (sbrk_r hook_build sram_symbols 0 5000 (init_state sram_symbols))) = 0x20000000
   \<and> heapBytesRemaining (snd (sbrk_r hook_build sram_symbols 0 5000 (init_state sram_symbols))) = 4096"
proof -
  have hook: "configUSE_MALLOC_FAILED_HOOK hook_build = 1"
    by (simp add: hook_build_def)
  have no_room: "HeapLimit sram_symbols < currentHeapEnd (init_state sram_symbols) + 5000"
    by (simp add: init_state_def sram_symbols_def)
  show ?thesis
    using hook no_room hook_policy_failure [OF hook no_room, of 0]
    by (simp add: init_state_def sram_symbols_def)
qed

text \<open>
  The same call against the claim as first stated: the sentinel is returned, but
  \<^verbatim>\<open>_errno\<close> is not \<^verbatim>\<open>ENOMEM\<close>, and the scheduler, not suspended before the
  call, is suspended one level deep after it. The store to \<^verbatim>\<open>_errno\<close> and the call
  of \<^verbatim>\<open>xTaskResumeAll\<close> stand in the \<^verbatim>\<open>#else\<close> branch only.
\<close>

theorem hook_policy_counterexample:
  "configUSE_MALLOC_FAILED_HOOK hook_build = 1
   \<and> HeapLimit sram_symbols < currentHeapEnd (init_state sram_symbols) + 5000
   \<and> fst (sbrk_r hook_build sram_symbols 0 5000 (init_state sram_symbols)) = Returns sbrk_failure
   \<and> reent_errno (snd (sbrk_r hook_build sram_symbols 0 5000 (init_state sram_symbols))) 0 \<noteq> ENOMEM
   \<and> uxSchedulerSuspended (init_state sram_symbols) = 0
   \<and> uxSchedulerSuspended (snd (sbrk_r hook_build sram_symbols 0 5000 (init_state sram_symbols))) = 1"
  by (simp add: sbrk_r_def Let_def vTaskSuspendAll_def vApplicationMallocFailedHook_def
      init_state_def sram_symbols_def hook_build_def ENOMEM_def)

subsection \<open>Bounds of the Current End Pointer\<close>

text \<open>
  C5, amended. Start with the Current End Pointer at the base, the base not above the
  limit. After every sequence of calls of \<^verbatim>\<open>_sbrk_r\<close>, with any deltas, the pointer is
  at most the limit. It is at least the base provided every delta is non-negative and
  small enough that \<open>limit + delta\<close> lies in the 32-bit address space.
\<close>

theorem current_end_within_region:
  assumes "currentHeapEnd s = HeapBase lk"
    and "HeapBase lk \<le> HeapLimit lk"
  shows "currentHeapEnd (snd (sbrk_calls cfg lk rs s)) \<le> HeapLimit lk
       \<and> ((\<forall>r \<in> set rs. 0 \<le> sint (snd r) \<and> uint (HeapLimit lk) + sint (snd r) < 2 ^ 32) \<longrightarrow>
            HeapBase lk \<le> currentHeapEnd (snd (sbrk_calls cfg lk rs s)))"
proof -
  let ?s' = "snd (sbrk_calls cfg lk rs s)"
  have up: "currentHeapEnd ?s' \<le> HeapLimit lk"
    using assms
    by (intro sbrk_calls_invariant [where Q = "\<lambda>_. True"
          and P = "\<lambda>t. currentHeapEnd t \<le> HeapLimit lk"])
       (simp_all add: sbrk_r_below_limit)
  have "HeapBase lk \<le> currentHeapEnd ?s'"
    if "\<forall>r \<in> set rs. 0 \<le> sint (snd r) \<and> uint (HeapLimit lk) + sint (snd r) < 2 ^ 32"
  proof -
    have "HeapBase lk \<le> currentHeapEnd ?s' \<and> currentHeapEnd ?s' \<le> HeapLimit lk"
      using assms that
      by (intro sbrk_calls_invariant [where Q = "\<lambda>d. 0 \<le> sint d \<and> uint (HeapLimit lk) + sint d < 2 ^ 32"
            and P = "\<lambda>t. HeapBase lk \<le> currentHeapEnd t \<and> currentHeapEnd t \<le> HeapLimit lk"])
         (simp_all add: sbrk_r_within_region)
    then show ?thesis by simp
  qed
  with up show ?thesis by blast
qed

text \<open>The scenario of the spec: the pointer ends at the limit.\<close>

theorem current_end_within_region_witness:
  "currentHeapEnd (init_state sram_symbols) = HeapBase sram_symbols
   \<and> HeapBase sram_symbols \<le> HeapLimit sram_symbols
   \<and> list_all (\<lambda>r. 0 \<le> sint (snd r) \<and> uint (HeapLimit sram_symbols) + sint (snd r) < 2 ^ 32) scenario
   \<and> currentHeapEnd (snd (sbrk_calls default_build sram_symbols scenario (init_state sram_symbols)))
        = 0x20001000
   \<and> HeapBase sram_symbols
        \<le> currentHeapEnd (snd (sbrk_calls default_build sram_symbols scenario (init_state sram_symbols)))
   \<and> currentHeapEnd (snd (sbrk_calls default_build sram_symbols scenario (init_state sram_symbols)))
        \<le> HeapLimit sram_symbols"
proof -
  have start: "currentHeapEnd (init_state sram_symbols) = HeapBase sram_symbols"
    by (simp add: init_state_def)
  have region: "HeapBase sram_symbols \<le> HeapLimit sram_symbols"
    by (simp add: sram_symbols_def)
  have deltas: "list_all (\<lambda>r. 0 \<le> sint (snd r) \<and> uint (HeapLimit sram_symbols) + sint (snd r) < 2 ^ 32) scenario"
    by (simp add: scenario_def sram_symbols_def)
  then have deltas': "\<forall>r \<in> set scenario. 0 \<le> sint (snd r) \<and> uint (HeapLimit sram_symbols) + sint (snd r) < 2 ^ 32"
    by (simp only: list_all_iff)
  have final: "currentHeapEnd (snd (sbrk_calls default_build sram_symbols scenario (init_state sram_symbols)))
        = 0x20001000"
    by (simp add: scenario_def run_defs sram_symbols_def default_build_def)
  show ?thesis
    using start region deltas deltas' final
      current_end_within_region [OF start region, of default_build scenario]
    by blast
qed

text \<open>
  With arbitrary deltas the lower bound fails. From the initial state a request of -16
  bytes is granted and leaves the pointer 16 bytes below the base. And on the region in
  SDRAM the non-negative request of \<open>0x7FFFFFF0\<close> bytes wraps the address around and is
  granted, which leaves the pointer at address 0.
\<close>

theorem current_end_within_region_counterexample:
  "currentHeapEnd (init_state sram_symbols) = HeapBase sram_symbols
   \<and> HeapBase sram_symbols \<le> HeapLimit sram_symbols
   \<and> fst (sbrk_calls default_build sram_symbols [(0, - 16)] (init_state sram_symbols)) = [Returns 0x20000000]
   \<and> currentHeapEnd (snd (sbrk_calls default_build sram_symbols [(0, - 16)] (init_state sram_symbols)))
        = 0x1FFFFFF0
   \<and> \<not> HeapBase sram_symbols
        \<le> currentHeapEnd (snd (sbrk_calls default_build sram_symbols [(0, - 16)] (init_state sram_symbols)))
   \<and> currentHeapEnd (init_state sdram_symbols) = HeapBase sdram_symbols
   \<and> HeapBase sdram_symbols \<le> HeapLimit sdram_symbols
   \<and> list_all (\<lambda>r. 0 \<le> sint (snd r)) oversized
   \<and> fst (sbrk_calls default_build sdram_symbols oversized (init_state sdram_symbols))
        = [Returns 0x80000000, Returns 0x80000010]
   \<and> currentHeapEnd (snd (sbrk_calls default_build sdram_symbols oversized (init_state sdram_symbols))) = 0
   \<and> \<not> HeapBase sdram_symbols
        \<le> currentHeapEnd (snd (sbrk_calls default_build sdram_symbols oversized (init_state sdram_symbols)))"
  by (simp add: run_defs sram_symbols_def sdram_symbols_def default_build_def oversized_def)

subsection \<open>Monotonicity of the Current End Pointer\<close>

text \<open>
  C6, amended. No call of \<^verbatim>\<open>_sbrk_r\<close> with a non-negative delta for which
  \<open>current_end + delta\<close> lies in the 32-bit address space leaves the Current End Pointer
  smaller than it was before the call, whether the call is granted or refused.
\<close>

theorem current_end_not_lowered:
  assumes "0 \<le> sint incr"
    and "uint (currentHeapEnd s) + sint incr < 2 ^ 32"
  shows "currentHeapEnd s \<le> currentHeapEnd (snd (sbrk_r cfg lk pReent incr s))"
proof (cases "HeapLimit lk < currentHeapEnd s + incr")
  case True
  then show ?thesis by (simp add: sbrk_r_no_room)
next
  case False
  have "uint (currentHeapEnd s + incr) = uint (currentHeapEnd s) + sint incr"
    using assms by (intro uint_add_sint) auto
  then have "currentHeapEnd s \<le> currentHeapEnd s + incr"
    using assms(1) by (simp add: word32_le_uint)
  then show ?thesis using False by (simp add: sbrk_r_fits)
qed

text \<open>100 bytes from the initial state.\<close>

theorem current_end_not_lowered_witness:
  "0 \<le> sint (100 :: word32)
   \<and> uint (currentHeapEnd (init_state sram_symbols)) + sint (100 :: word32) < 2 ^ 32
   \<and> currentHeapEnd (snd (sbrk_r default_build sram_symbols 0 100 (init_state sram_symbols))) = 0x20000064
   \<and> currentHeapEnd (init_state sram_symbols)
        \<le> currentHeapEnd (snd (sbrk_r default_build sram_symbols 0 100 (init_state sram_symbols)))"
proof -
  have nonneg: "0 \<le> sint (100 :: word32)"
    by simp
  have inside: "uint (currentHeapEnd (init_state sram_symbols)) + sint (100 :: word32) < 2 ^ 32"
    by (simp add: init_state_def sram_symbols_def)
  have "currentHeapEnd (snd (sbrk_r default_build sram_symbols 0 100 (init_state sram_symbols))) = 0x20000064"
    by (simp add: run_defs sram_symbols_def default_build_def)
  then show ?thesis
    using nonneg inside
      current_end_not_lowered [OF nonneg inside, of default_build sram_symbols 0]
    by blast
qed

text \<open>
  A negative delta is accepted by the signature and served: with the pointer at
  base + 100, a request of -40 bytes returns the old end and moves the pointer down to
  base + 60. A delta that wraps the address around lowers the pointer as well.
\<close>

theorem current_end_not_lowered_counterexample:
  "currentHeapEnd after_100_bytes = 0x20000064
   \<and> fst (sbrk_r default_build sram_symbols 0 (- 40) after_100_bytes) = Returns 0x20000064
   \<and> currentHeapEnd (snd (sbrk_r default_build sram_symbols 0 (- 40) after_100_bytes)) = 0x2000003C
   \<and> currentHeapEnd (snd (sbrk_r default_build sram_symbols 0 (- 40) after_100_bytes))
        < currentHeapEnd after_100_bytes
   \<and> currentHeapEnd after_16_bytes = 0x80000010
   \<and> 0 \<le> sint (0x7FFFFFF0 :: word32)
   \<and> fst (sbrk_r default_build sdram_symbols 0 0x7FFFFFF0 after_16_bytes) = Returns 0x80000010
   \<and> currentHeapEnd (snd (sbrk_r default_build sdram_symbols 0 0x7FFFFFF0 after_16_bytes)) = 0
   \<and> currentHeapEnd (snd (sbrk_r default_build sdram_symbols 0 0x7FFFFFF0 after_16_bytes))
        < currentHeapEnd after_16_bytes"
  by (simp add: after_100_bytes_def after_16_bytes_def run_defs sram_symbols_def sdram_symbols_def
      default_build_def)

subsection \<open>Locks taken in interrupt context\<close>

text \<open>
  C7. The claim asks for an assertion failure when either lock is taken while
  \<^verbatim>\<open>xPortIsInsideInterrupt()\<close> is true. \<^verbatim>\<open>__malloc_lock\<close> does assert;
  \<^verbatim>\<open>__env_lock\<close> has no assertion: called in interrupt context it calls
  \<^verbatim>\<open>vTaskSuspendAll\<close> and returns, although the file itself notes that
  \<^verbatim>\<open>vTaskSuspendAll\<close> is not safe within an ISR.
\<close>

theorem env_lock_in_interrupt:
  "xPortIsInsideInterrupt ((init_state sram_symbols)\<lparr>insideInterrupt := True\<rparr>)
   \<and> fst (env_lock ((init_state sram_symbols)\<lparr>insideInterrupt := True\<rparr>)) = Returns ()
   \<and> uxSchedulerSuspended (snd (env_lock ((init_state sram_symbols)\<lparr>insideInterrupt := True\<rparr>))) = 1
   \<and> fst (malloc_lock 0 ((init_state sram_symbols)\<lparr>insideInterrupt := True\<rparr>)) = AssertionFailed"
  by (simp add: env_lock_def malloc_lock_def configASSERT_def xPortIsInsideInterrupt_def
      vTaskSuspendAll_def init_state_def)

subsection \<open>Requests within the region\<close>

text \<open>
  C8. For every sequence of requests with non-negative deltas whose sum is at most the
  size of the region, issued with the Current End Pointer at the base, every request
  succeeds under every policy: request \<open>i\<close> returns the base plus the deltas before it,
  no error indicator is set, the hook is not called, the scheduler ends as it started;
  and the final pointer is the base plus the sum of the deltas, as a 32-bit value and as
  an address.
\<close>

theorem requests_within_region_all_succeed:
  assumes "currentHeapEnd s = HeapBase lk"
    and "\<forall>r \<in> set rs. 0 \<le> sint (snd r)"
    and "(\<Sum>r\<leftarrow>rs. sint (snd r)) \<le> uint (HeapLimit lk) - uint (HeapBase lk)"
  shows "length (fst (sbrk_calls cfg lk rs s)) = length rs
       \<and> (\<forall>i<length rs. fst (sbrk_calls cfg lk rs s) ! i
              = Returns (HeapBase lk + (\<Sum>r\<leftarrow>take i rs. snd r)))
       \<and> currentHeapEnd (snd (sbrk_calls cfg lk rs s)) = HeapBase lk + (\<Sum>r\<leftarrow>rs. snd r)
       \<and> uint (currentHeapEnd (snd (sbrk_calls cfg lk rs s)))
           = uint (HeapBase lk) + (\<Sum>r\<leftarrow>rs. sint (snd r))
       \<and> reent_errno (snd (sbrk_calls cfg lk rs s)) = reent_errno s
       \<and> hookCalls (snd (sbrk_calls cfg lk rs s)) = hookCalls s
       \<and> uxSchedulerSuspended (snd (sbrk_calls cfg lk rs s)) = uxSchedulerSuspended s"
proof -
  have prefixes: "\<forall>j. 0 < j \<and> j \<le> length rs \<longrightarrow>
             0 \<le> uint (currentHeapEnd s) + (\<Sum>r\<leftarrow>take j rs. sint (snd r))
           \<and> uint (currentHeapEnd s) + (\<Sum>r\<leftarrow>take j rs. sint (snd r)) \<le> uint (HeapLimit lk)"
  proof (intro allI impI)
    fix j assume "0 < j \<and> j \<le> length rs"
    have "0 \<le> (\<Sum>r\<leftarrow>take j rs. sint (snd r))
        \<and> (\<Sum>r\<leftarrow>take j rs. sint (snd r)) \<le> (\<Sum>r\<leftarrow>rs. sint (snd r))"
      using assms(2) by (intro sum_take_nonneg) simp
    then show "0 \<le> uint (currentHeapEnd s) + (\<Sum>r\<leftarrow>take j rs. sint (snd r))
           \<and> uint (currentHeapEnd s) + (\<Sum>r\<leftarrow>take j rs. sint (snd r)) \<le> uint (HeapLimit lk)"
      using assms(1,3) by simp
  qed
  from sbrk_calls_granted [OF prefixes, of cfg] show ?thesis
    using assms(1) by simp
qed

text \<open>100 bytes and then 3996 bytes fill the 4096-byte region exactly, in a hard-stop build.\<close>

theorem requests_within_region_all_succeed_witness:
  "currentHeapEnd (init_state sram_symbols) = HeapBase sram_symbols
   \<and> list_all (\<lambda>r. 0 \<le> sint (snd r)) exact_fit
   \<and> (\<Sum>r\<leftarrow>exact_fit. sint (snd r)) = 4096
   \<and> uint (HeapLimit sram_symbols) - uint (HeapBase sram_symbols) = 4096
   \<and> fst (sbrk_calls hard_stop_build sram_symbols exact_fit (init_state sram_symbols))
        = [Returns 0x20000000, Returns 0x20000064]
   \<and> currentHeapEnd (snd (sbrk_calls hard_stop_build sram_symbols exact_fit (init_state sram_symbols)))
        = HeapBase sram_symbols + 4096
   \<and> uint (currentHeapEnd (snd (sbrk_calls hard_stop_build sram_symbols exact_fit (init_state sram_symbols))))
        = uint (HeapBase sram_symbols) + 4096"
proof -
  have start: "currentHeapEnd (init_state sram_symbols) = HeapBase sram_symbols"
    by (simp add: init_state_def)
  have nonneg: "list_all (\<lambda>r. 0 \<le> sint (snd r)) exact_fit"
    by (simp add: exact_fit_def)
  then have nonneg': "\<forall>r \<in> set exact_fit. 0 \<le> sint (snd r)"
    by (simp only: list_all_iff)
  have isum: "(\<Sum>r\<leftarrow>exact_fit. sint (snd r)) = 4096"
    and wsum: "(\<Sum>r\<leftarrow>exact_fit. snd r) = 4096"
    by (simp_all add: exact_fit_def)
  have size: "uint (HeapLimit sram_symbols) - uint (HeapBase sram_symbols) = 4096"
    by (simp add: sram_symbols_def)
  have total: "(\<Sum>r\<leftarrow>exact_fit. sint (snd r)) \<le> uint (HeapLimit sram_symbols) - uint (HeapBase sram_symbols)"
    by (simp only: isum size)
  note all = requests_within_region_all_succeed [OF start nonneg' total, of hard_stop_build]
  have results: "fst (sbrk_calls hard_stop_build sram_symbols exact_fit (init_state sram_symbols))
        = [Returns 0x20000000, Returns 0x20000064]"
    by (simp add: exact_fit_def run_defs sram_symbols_def hard_stop_build_def)
  have "currentHeapEnd (snd (sbrk_calls hard_stop_build sram_symbols exact_fit (init_state sram_symbols)))
        = HeapBase sram_symbols + (\<Sum>r\<leftarrow>exact_fit. snd r)"
    and "uint (currentHeapEnd (snd (sbrk_calls hard_stop_build sram_symbols exact_fit (init_state sram_symbols))))
        = uint (HeapBase sram_symbols) + (\<Sum>r\<leftarrow>exact_fit. sint (snd r))"
    using all by blast+
  then have "currentHeapEnd (snd (sbrk_calls hard_stop_build sram_symbols exact_fit (init_state sram_symbols)))
        = HeapBase sram_symbols + 4096"
    and "uint (currentHeapEnd (snd (sbrk_calls hard_stop_build sram_symbols exact_fit (init_state sram_symbols))))
        = uint (HeapBase sram_symbols) + 4096"
    unfolding wsum isum by blast+
  then show ?thesis
    using start nonneg isum size results by blast
qed

subsection \<open>The free-space query\<close>

text \<open>
  C9. \<^verbatim>\<open>xPortGetFreeHeapSize\<close> returns \<^verbatim>\<open>fordblks\<close> of newlib's
  \<^verbatim>\<open>mallinfo\<close> plus the Remaining-Capacity Counter. Hence, with the same
  \<^verbatim>\<open>mallinfo\<close> answer, a granted request of \<open>d\<close> bytes makes the next result exactly
  \<open>d\<close> smaller: as \<^verbatim>\<open>size_t\<close> values always, and as numbers whenever \<open>d\<close> is
  non-negative and not more than the result before.
\<close>

theorem free_heap_size_after_extension:
  "xPortGetFreeHeapSize mi s = fordblks mi + heapBytesRemaining s
   \<and> (currentHeapEnd s + d \<le> HeapLimit lk \<longrightarrow>
        xPortGetFreeHeapSize mi (snd (sbrk_r cfg lk pReent d s)) = xPortGetFreeHeapSize mi s - d)
   \<and> (currentHeapEnd s + d \<le> HeapLimit lk \<and> 0 \<le> sint d \<and> sint d \<le> uint (xPortGetFreeHeapSize mi s) \<longrightarrow>
        uint (xPortGetFreeHeapSize mi (snd (sbrk_r cfg lk pReent d s)))
          = uint (xPortGetFreeHeapSize mi s) - sint d)"
proof (intro conjI impI)
  show "xPortGetFreeHeapSize mi s = fordblks mi + heapBytesRemaining s"
    by (simp add: xPortGetFreeHeapSize_def)
next
  assume "currentHeapEnd s + d \<le> HeapLimit lk"
  then show "xPortGetFreeHeapSize mi (snd (sbrk_r cfg lk pReent d s)) = xPortGetFreeHeapSize mi s - d"
    by (simp add: xPortGetFreeHeapSize_def sbrk_r_fits not_less [symmetric])
next
  assume a: "currentHeapEnd s + d \<le> HeapLimit lk \<and> 0 \<le> sint d \<and> sint d \<le> uint (xPortGetFreeHeapSize mi s)"
  then have eq: "xPortGetFreeHeapSize mi (snd (sbrk_r cfg lk pReent d s)) = xPortGetFreeHeapSize mi s - d"
    by (simp add: xPortGetFreeHeapSize_def sbrk_r_fits not_less [symmetric])
  have sd: "sint d = uint d" using a by (simp add: sint_nonneg_eq_uint)
  then have "d \<le> xPortGetFreeHeapSize mi s"
    using a by (simp add: word32_le_uint)
  then have "uint (xPortGetFreeHeapSize mi s - d) = uint (xPortGetFreeHeapSize mi s) - uint d"
    by (simp add: uint_minus_simple_alt)
  then show "uint (xPortGetFreeHeapSize mi (snd (sbrk_r cfg lk pReent d s)))
          = uint (xPortGetFreeHeapSize mi s) - sint d"
    using eq sd by simp
qed

text \<open>32 free bytes inside newlib and 4096 not yet handed out: 4128, and 4028 after 100 more.\<close>

theorem free_heap_size_after_extension_witness:
  "currentHeapEnd (init_state sram_symbols) + 100 \<le> HeapLimit sram_symbols
   \<and> 0 \<le> sint (100 :: word32)
   \<and> sint (100 :: word32) \<le> uint (xPortGetFreeHeapSize mallinfo_32_free (init_state sram_symbols))
   \<and> xPortGetFreeHeapSize mallinfo_32_free (init_state sram_symbols) = 4128
   \<and> xPortGetFreeHeapSize mallinfo_32_free
        (snd (sbrk_r default_build sram_symbols 0 100 (init_state sram_symbols))) = 4028
   \<and> uint (xPortGetFreeHeapSize mallinfo_32_free
        (snd (sbrk_r default_build sram_symbols 0 100 (init_state sram_symbols)))) = 4128 - 100"
proof -
  let ?s = "init_state sram_symbols"
  have fits: "currentHeapEnd ?s + 100 \<le> HeapLimit sram_symbols"
    by (simp add: init_state_def sram_symbols_def)
  have query: "xPortGetFreeHeapSize mallinfo_32_free ?s = 4128"
    by (simp add: xPortGetFreeHeapSize_def init_state_def sram_symbols_def mallinfo_32_free_def)
  have nonneg: "0 \<le> sint (100 :: word32)"
    by simp
  have small: "sint (100 :: word32) \<le> uint (xPortGetFreeHeapSize mallinfo_32_free ?s)"
    by (simp add: query)
  note inst = free_heap_size_after_extension [of mallinfo_32_free ?s 100 sram_symbols default_build 0]
  have after: "xPortGetFreeHeapSize mallinfo_32_free (snd (sbrk_r default_build sram_symbols 0 100 ?s)) = 4028"
    using inst fits query by simp
  have "uint (xPortGetFreeHeapSize mallinfo_32_free (snd (sbrk_r default_build sram_symbols 0 100 ?s)))
          = 4128 - 100"
    using inst fits nonneg small query by simp
  then show ?thesis
    using fits query nonneg small after by blast
qed

subsection \<open>The accounting wrappers\<close>

text \<open>
  C10. Let newlib's allocator leave the accounting variables alone. A call of
  \<^verbatim>\<open>__wrap_malloc(n)\<close> adds exactly 1 to \<^verbatim>\<open>MallocCallCnt\<close> and exactly \<open>n\<close> to
  \<^verbatim>\<open>TotalMallocdBytes\<close>, although the real \<^verbatim>\<open>malloc\<close> it calls goes through
  \<^verbatim>\<open>__wrap__malloc_r\<close>: a call of \<^verbatim>\<open>__wrap__malloc_r\<close> made while
  \<^verbatim>\<open>inside_malloc\<close> is set counts nothing. \<^verbatim>\<open>__wrap_malloc\<close> returns with the flag
  clear, and \<^verbatim>\<open>__wrap__malloc_r\<close> leaves the flag as it found it. A call of
  \<^verbatim>\<open>__wrap__malloc_r\<close> made while the flag is clear adds 1 and \<open>n\<close> as well; so does a
  call of \<^verbatim>\<open>__wrap__malloc_r\<close> for \<open>m\<close> bytes that follows a call of
  \<^verbatim>\<open>__wrap_malloc\<close>, whatever the flag was before. Hence, started with the flag clear,
  every sequence of allocations from outside, through either entry, adds its length to
  \<^verbatim>\<open>MallocCallCnt\<close> and the sum of its byte counts to \<^verbatim>\<open>TotalMallocdBytes\<close>, and
  ends with the flag clear.
\<close>

theorem allocation_counted_once:
  assumes "leaves_accounting rm"
  shows "MallocCallCnt (snd (wrap_malloc rm n s)) = MallocCallCnt s + 1
       \<and> TotalMallocdBytes (snd (wrap_malloc rm n s)) = TotalMallocdBytes s + n
       \<and> \<not> inside_malloc (snd (wrap_malloc rm n s))
       \<and> inside_malloc (snd (wrap_malloc_r rm reent n s)) = inside_malloc s
       \<and> (inside_malloc s \<longrightarrow>
            MallocCallCnt (snd (wrap_malloc_r rm reent n s)) = MallocCallCnt s
          \<and> TotalMallocdBytes (snd (wrap_malloc_r rm reent n s)) = TotalMallocdBytes s)
       \<and> (\<not> inside_malloc s \<longrightarrow>
            MallocCallCnt (snd (wrap_malloc_r rm reent n s)) = MallocCallCnt s + 1
          \<and> TotalMallocdBytes (snd (wrap_malloc_r rm reent n s)) = TotalMallocdBytes s + n)
       \<and> MallocCallCnt (snd (wrap_malloc_r rm reent m (snd (wrap_malloc rm n s))))
            = MallocCallCnt s + 1 + 1
       \<and> TotalMallocdBytes (snd (wrap_malloc_r rm reent m (snd (wrap_malloc rm n s))))
            = TotalMallocdBytes s + n + m
       \<and> (\<not> inside_malloc s \<longrightarrow>
            MallocCallCnt (snd (allocations rm calls s)) = MallocCallCnt s + of_nat (length calls)
          \<and> TotalMallocdBytes (snd (allocations rm calls s))
              = TotalMallocdBytes s + (\<Sum>a\<leftarrow>calls. requested a)
          \<and> \<not> inside_malloc (snd (allocations rm calls s)))"
proof -
  note outer = wrap_malloc_counters [OF assms, of n s]
  note inner = wrap_malloc_r_counters [OF assms, of reent n s]
  note later = wrap_malloc_r_counters [OF assms, of reent m "snd (wrap_malloc rm n s)"]
  have after: "MallocCallCnt (snd (wrap_malloc_r rm reent m (snd (wrap_malloc rm n s))))
            = MallocCallCnt s + 1 + 1"
    "TotalMallocdBytes (snd (wrap_malloc_r rm reent m (snd (wrap_malloc rm n s))))
            = TotalMallocdBytes s + n + m"
    using outer later by simp_all
  have seq: "\<not> inside_malloc s \<longrightarrow>
            MallocCallCnt (snd (allocations rm calls s)) = MallocCallCnt s + of_nat (length calls)
          \<and> TotalMallocdBytes (snd (allocations rm calls s))
              = TotalMallocdBytes s + (\<Sum>a\<leftarrow>calls. requested a)
          \<and> \<not> inside_malloc (snd (allocations rm calls s))"
    using allocations_counters [OF assms] by blast
  show ?thesis
    using outer inner after seq by simp
qed

text \<open>
  A request of 24 bytes through either entry, a request of 40 bytes through
  \<^verbatim>\<open>__wrap__malloc_r\<close> after one of 24 bytes through \<^verbatim>\<open>__wrap_malloc\<close>, and three
  allocations in a row, with an allocator built on \<^verbatim>\<open>sbrk\<close>.
\<close>

theorem allocation_counted_once_witness:
  "leaves_accounting sbrk_malloc_r
   \<and> MallocCallCnt (snd (wrap_malloc sbrk_malloc_r 24 (init_state sram_symbols))) = 1
   \<and> TotalMallocdBytes (snd (wrap_malloc sbrk_malloc_r 24 (init_state sram_symbols))) = 24
   \<and> \<not> inside_malloc (snd (wrap_malloc sbrk_malloc_r 24 (init_state sram_symbols)))
   \<and> \<not> inside_malloc (init_state sram_symbols)
   \<and> MallocCallCnt (snd (wrap_malloc_r sbrk_malloc_r 0 24 (init_state sram_symbols))) = 1
   \<and> TotalMallocdBytes (snd (wrap_malloc_r sbrk_malloc_r 0 24 (init_state sram_symbols))) = 24
   \<and> inside_malloc ((init_state sram_symbols)\<lparr>inside_malloc := True\<rparr>)
   \<and> MallocCallCnt (snd (wrap_malloc_r sbrk_malloc_r 0 24 ((init_state sram_symbols)\<lparr>inside_malloc := True\<rparr>))) = 0
   \<and> TotalMallocdBytes (snd (wrap_malloc_r sbrk_malloc_r 0 24 ((init_state sram_symbols)\<lparr>inside_malloc := True\<rparr>))) = 0
   \<and> MallocCallCnt (snd (wrap_malloc_r sbrk_malloc_r 0 40 (snd (wrap_malloc sbrk_malloc_r 24 (init_state sram_symbols))))) = 2
   \<and> TotalMallocdBytes (snd (wrap_malloc_r sbrk_malloc_r 0 40 (snd (wrap_malloc sbrk_malloc_r 24 (init_state sram_symbols))))) = 64
   \<and> MallocCallCnt (snd (allocations sbrk_malloc_r three_allocations (init_state sram_symbols))) = 3
   \<and> TotalMallocdBytes (snd (allocations sbrk_malloc_r three_allocations (init_state sram_symbols))) = 72
   \<and> \<not> inside_malloc (snd (allocations sbrk_malloc_r three_allocations (init_state sram_symbols)))"
proof -
  have frame: "leaves_accounting sbrk_malloc_r"
    by (rule sbrk_malloc_r_leaves_accounting)
  have clear: "\<not> inside_malloc (init_state sram_symbols)"
    by (simp add: init_state_def)
  have start: "MallocCallCnt (init_state sram_symbols) = 0" "TotalMallocdBytes (init_state sram_symbols) = 0"
    by (simp_all add: init_state_def)
  have sizes: "of_nat (length three_allocations) = (3 :: word32)"
    "(\<Sum>a\<leftarrow>three_allocations. requested a) = 72"
    by (simp_all add: three_allocations_def)
  note first = allocation_counted_once [OF frame, of 24 "init_state sram_symbols" 0 40 three_allocations]
  note nested = allocation_counted_once [OF frame, of 24 "(init_state sram_symbols)\<lparr>inside_malloc := True\<rparr>" 0 40 three_allocations]
  have a: "MallocCallCnt (snd (wrap_malloc sbrk_malloc_r 24 (init_state sram_symbols))) = 1"
    "TotalMallocdBytes (snd (wrap_malloc sbrk_malloc_r 24 (init_state sram_symbols))) = 24"
    "\<not> inside_malloc (snd (wrap_malloc sbrk_malloc_r 24 (init_state sram_symbols)))"
    "MallocCallCnt (snd (wrap_malloc_r sbrk_malloc_r 0 24 (init_state sram_symbols))) = 1"
    "TotalMallocdBytes (snd (wrap_malloc_r sbrk_malloc_r 0 24 (init_state sram_symbols))) = 24"
    "MallocCallCnt (snd (wrap_malloc_r sbrk_malloc_r 0 40 (snd (wrap_malloc sbrk_malloc_r 24 (init_state sram_symbols))))) = 2"
    "TotalMallocdBytes (snd (wrap_malloc_r sbrk_malloc_r 0 40 (snd (wrap_malloc sbrk_malloc_r 24 (init_state sram_symbols))))) = 64"
    "MallocCallCnt (snd (allocations sbrk_malloc_r three_allocations (init_state sram_symbols))) = 3"
    "TotalMallocdBytes (snd (allocations sbrk_malloc_r three_allocations (init_state sram_symbols))) = 72"
    "\<not> inside_malloc (snd (allocations sbrk_malloc_r three_allocations (init_state sram_symbols)))"
    using first clear start sizes by simp_all
  have b: "inside_malloc ((init_state sram_symbols)\<lparr>inside_malloc := True\<rparr>)"
    "MallocCallCnt (snd (wrap_malloc_r sbrk_malloc_r 0 24 ((init_state sram_symbols)\<lparr>inside_malloc := True\<rparr>))) = 0"
    "TotalMallocdBytes (snd (wrap_malloc_r sbrk_malloc_r 0 24 ((init_state sram_symbols)\<lparr>inside_malloc := True\<rparr>))) = 0"
    using nested by (simp_all add: init_state_def)
  show ?thesis
    using frame clear a b by blast
qed

end
